theory Spec2Isabelle
  imports Complex_Main "HOL-Library.Char_ord" "HOL-Library.List_Lexorder"
begin

section \<open>Data model\<close>

text \<open>
  A pandas DataFrame is an ordered sequence of named columns. A column holds values of one
  inferred type, numeric or text, with possible nulls (\<open>None\<close>/NaN): a null is \<open>None\<close>.
  Floats are modelled as reals. All columns of a frame have the same length.
\<close>

datatype column = NumCol "real option list" | StrCol "string option list"

type_synonym dataframe = "(string \<times> column) list"

fun col_len :: "column \<Rightarrow> nat" where
  "col_len (NumCol xs) = length xs"
| "col_len (StrCol xs) = length xs"

text \<open>\<open>len(df)\<close>: the number of rows.\<close>

definition df_len :: "dataframe \<Rightarrow> nat" where
  "df_len df = (case df of [] \<Rightarrow> 0 | (n, c) # rest \<Rightarrow> col_len c)"

text \<open>\<open>df.empty\<close>: pandas calls a frame empty when one of its axes has length 0.\<close>

definition df_empty :: "dataframe \<Rightarrow> bool" where
  "df_empty df = (length df = 0 \<or> df_len df = 0)"

text \<open>Values of a \<open>Dict[str, Any]\<close>: what a JSON body holds and what \<open>json.dump\<close> writes.\<close>

datatype json =
    JNull
  | JBool bool
  | JInt int
  | JNum real
  | JStr string
  | JList "json list"
  | JObj "(string \<times> json) list"

section \<open>The statistical core (eda_cli/core.py)\<close>

record ColumnSummary =
  name :: string
  dtype :: string
  is_numeric :: bool
  non_null :: nat
  unique :: nat
  mean :: "real option"
  std :: "real option"

record DatasetSummary =
  n_rows :: nat
  n_cols :: nat
  columns :: "ColumnSummary list"

record missing_entry =
  missing_count :: nat
  missing_share :: real

text \<open>The missing table is a frame indexed by column name: one row per column.\<close>

type_synonym MissingTable = "(string \<times> missing_entry) list"

text \<open>The non-null values of a column, in row order.\<close>

definition non_nulls :: "'a option list \<Rightarrow> 'a list" where
  "non_nulls xs = concat (map (\<lambda>x. case x of None \<Rightarrow> [] | Some v \<Rightarrow> [v]) xs)"

definition nulls :: "'a option list \<Rightarrow> nat" where
  "nulls xs = length (filter (\<lambda>x. x = None) xs)"

definition mean_of :: "real list \<Rightarrow> real option" where
  "mean_of vs = (if vs = [] then None else Some (sum_list vs / real (length vs)))"

text \<open>Sample standard deviation; undefined with fewer than two values.\<close>

definition std_of :: "real list \<Rightarrow> real option" where
  "std_of vs =
     (if length vs < 2 then None
      else let m = sum_list vs / real (length vs)
           in Some (sqrt (sum_list (map (\<lambda>v. (v - m)\<^sup>2) vs) / real (length vs - 1))))"

text \<open>
  Modelled from the spec: \<open>summarize_dataset\<close> of eda_cli/core.py, which is not among the
  sources. Spec 4.1: for each column count the non-null values and the distinct values
  (nulls excluded); for a numeric column compute the mean and the sample standard
  deviation (null with fewer than two non-null values); the summary carries the row and
  column counts of the dataset. The dtype label is the inferred type of the column.
\<close>

fun summarize_column :: "string \<times> column \<Rightarrow> ColumnSummary" where
  "summarize_column (n, NumCol xs) =
     \<lparr>name = n, dtype = ''numeric'', is_numeric = True,
      non_null = length (non_nulls xs), unique = length (remdups (non_nulls xs)),
      mean = mean_of (non_nulls xs), std = std_of (non_nulls xs)\<rparr>"
| "summarize_column (n, StrCol xs) =
     \<lparr>name = n, dtype = ''text'', is_numeric = False,
      non_null = length (non_nulls xs), unique = length (remdups (non_nulls xs)),
      mean = None, std = None\<rparr>"

definition summarize_dataset :: "dataframe \<Rightarrow> DatasetSummary" where
  "summarize_dataset df =
     \<lparr>n_rows = df_len df, n_cols = length df, columns = map summarize_column df\<rparr>"

text \<open>
  Modelled from the spec: \<open>missing_table\<close> of eda_cli/core.py, which is not among the
  sources. Spec 4.2: one entry per column, whether or not it has nulls; the share is the
  count over the number of rows; with no rows the table is empty.
\<close>

fun col_nulls :: "column \<Rightarrow> nat" where
  "col_nulls (NumCol xs) = nulls xs"
| "col_nulls (StrCol xs) = nulls xs"

definition missing_table :: "dataframe \<Rightarrow> MissingTable" where
  "missing_table df =
     (if df_len df = 0 then []
      else map (\<lambda>(n, c). (n, \<lparr>missing_count = col_nulls c,
                                missing_share = real (col_nulls c) / real (df_len df)\<rparr>)) df)"

text \<open>
  The thresholds of the quality scorer. The spec leaves the row floor, the column
  ceiling, the missing-share ceiling and the per-flag penalty configurable; the
  high-cardinality threshold (50 distinct values) and the low-variation threshold
  (a standard deviation of 1e-6) are fixed.
\<close>

record quality_config =
  min_rows :: nat
  max_cols :: nat
  max_missing :: real
  penalty :: real

definition max_missing_share_of :: "MissingTable \<Rightarrow> real" where
  "max_missing_share_of missing_df =
     (if missing_df = [] then 0 else Max (set (map (\<lambda>(n, e). missing_share e) missing_df)))"

definition is_constant :: "ColumnSummary \<Rightarrow> bool" where
  "is_constant col = (non_null col > 0 \<and> unique col = 1)"

definition is_high_cardinality :: "ColumnSummary \<Rightarrow> bool" where
  "is_high_cardinality col = (\<not> is_numeric col \<and> non_null col > 0 \<and> unique col > 50)"

definition is_low_variation :: "ColumnSummary \<Rightarrow> bool" where
  "is_low_variation col =
     (is_numeric col \<and> non_null col > 1 \<and>
      (case std col of None \<Rightarrow> False | Some s \<Rightarrow> s < 1 / 1000000))"

text \<open>The score starts at 1.0 and loses the penalty once for each triggered flag.\<close>

fun decrement :: "real \<Rightarrow> bool list \<Rightarrow> real \<Rightarrow> real" where
  "decrement p [] score = score"
| "decrement p (b # bs) score = decrement p bs (if b then score - p else score)"

text \<open>
  Modelled from the spec: \<open>compute_quality_flags\<close> of eda_cli/core.py, which is not among
  the sources. Spec 4.5: six independent boolean checks, none short-circuited;
  \<open>quality_score\<close> starts at 1.0, is decremented by a fixed penalty per triggered flag
  and is floored at 0.0. The result is a dictionary, read by its callers as
  \<open>flags["quality_score"]\<close> and through \<open>flags.items()\<close>.
\<close>

definition compute_quality_flags ::
  "quality_config \<Rightarrow> DatasetSummary \<Rightarrow> MissingTable \<Rightarrow> (string \<times> json) list" where
  "compute_quality_flags cfg summary missing_df =
     (let too_few_rows = n_rows summary < min_rows cfg;
          too_many_columns = n_cols summary > max_cols cfg;
          max_missing_share = max_missing_share_of missing_df;
          too_many_missing = max_missing_share > max_missing cfg;
          has_constant_columns = list_ex is_constant (columns summary);
          has_high_cardinality_categoricals = list_ex is_high_cardinality (columns summary);
          has_numeric_columns_with_low_variation = list_ex is_low_variation (columns summary);
          score = decrement (penalty cfg)
                    [too_few_rows, too_many_columns, too_many_missing, has_constant_columns,
                     has_high_cardinality_categoricals, has_numeric_columns_with_low_variation]
                    1
      in [(''too_few_rows'', JBool too_few_rows),
          (''too_many_columns'', JBool too_many_columns),
          (''max_missing_share'', JNum max_missing_share),
          (''too_many_missing'', JBool too_many_missing),
          (''has_constant_columns'', JBool has_constant_columns),
          (''has_high_cardinality_categoricals'', JBool has_high_cardinality_categoricals),
          (''has_numeric_columns_with_low_variation'',
             JBool has_numeric_columns_with_low_variation),
          (''quality_score'', JNum (max 0 score))])"

text \<open>The six boolean flags of the dictionary, and how many of them are set.\<close>

definition flag_names :: "string list" where
  "flag_names = [''too_few_rows'', ''too_many_columns'', ''too_many_missing'',
     ''has_constant_columns'', ''has_high_cardinality_categoricals'',
     ''has_numeric_columns_with_low_variation'']"

definition triggered :: "(string \<times> json) list \<Rightarrow> nat" where
  "triggered flags = length (filter (\<lambda>k. map_of flags k = Some (JBool True)) flag_names)"

definition quality_score :: "(string \<times> json) list \<Rightarrow> real option" where
  "quality_score flags =
     (case map_of flags ''quality_score'' of Some (JNum x) \<Rightarrow> Some x | _ \<Rightarrow> None)"

text \<open>The distinct values of a list, in the order of their first occurrence.\<close>

fun first_seen :: "'a list \<Rightarrow> 'a list" where
  "first_seen [] = []"
| "first_seen (x # xs) = x # removeAll x (first_seen xs)"

text \<open>
  The frequency table of a list of values: each distinct value with its count, by
  descending count. The sort is stable, so values of equal count stay in first-seen order.
\<close>

definition value_counts :: "'a list \<Rightarrow> ('a \<times> nat) list" where
  "value_counts vs =
     sort_key (\<lambda>(v, c). - int c) (map (\<lambda>v. (v, count_list vs v)) (first_seen vs))"

text \<open>The non-numeric columns of a frame, in column order.\<close>

fun text_columns :: "dataframe \<Rightarrow> (string \<times> string option list) list" where
  "text_columns [] = []"
| "text_columns ((n, NumCol xs) # rest) = text_columns rest"
| "text_columns ((n, StrCol xs) # rest) = (n, xs) # text_columns rest"

text \<open>
  Modelled from the spec: \<open>top_categories\<close> of eda_cli/core.py, which is not among the
  sources. Spec 4.4: for each non-numeric column, up to the optional cap \<open>max_columns\<close>,
  count the frequency of each non-null value and return the \<open>top_k\<close> by descending count
  (ties in first-seen order, spec 3); a column with no non-null value is omitted. The
  result maps a column name to its table of (value, frequency) rows.
\<close>

definition top_categories ::
  "dataframe \<Rightarrow> nat option \<Rightarrow> nat \<Rightarrow> (string \<times> (string \<times> nat) list) list" where
  "top_categories df max_columns top_k =
     (let cats = text_columns df;
          chosen = (case max_columns of None \<Rightarrow> cats | Some m \<Rightarrow> take m cats)
      in concat (map (\<lambda>(n, xs). if non_nulls xs = [] then []
                                else [(n, take top_k (value_counts (non_nulls xs)))]) chosen))"

text \<open>The frame of the tests (\<open>_sample_df\<close> in tests/test_core.py).\<close>

definition sample_df :: dataframe where
  "sample_df =
     [(''age'', NumCol [Some 10, Some 20, Some 30, None]),
      (''height'', NumCol [Some 140, Some 150, Some 160, Some 170]),
      (''city'', StrCol [Some ''A'', Some ''B'', Some ''A'', None])]"

text \<open>The numeric columns of a frame, in column order.\<close>

fun numeric_columns :: "dataframe \<Rightarrow> (string \<times> real option list) list" where
  "numeric_columns [] = []"
| "numeric_columns ((n, NumCol xs) # rest) = (n, xs) # numeric_columns rest"
| "numeric_columns ((n, StrCol xs) # rest) = numeric_columns rest"

text \<open>The rows where both columns of a pair have a value (pairwise exclusion of nulls).\<close>

definition complete_pairs :: "real option list \<Rightarrow> real option list \<Rightarrow> (real \<times> real) list" where
  "complete_pairs xs ys =
     concat (map (\<lambda>(x, y). case x of None \<Rightarrow> []
                            | Some a \<Rightarrow> (case y of None \<Rightarrow> [] | Some b \<Rightarrow> [(a, b)]))
                 (zip xs ys))"

text \<open>
  Pearson's correlation coefficient of a list of pairs. It is undefined (pandas gives NaN,
  here \<open>None\<close>) when there is no pair or when one of the two has no variation.
\<close>

definition pearson :: "(real \<times> real) list \<Rightarrow> real option" where
  "pearson ps =
     (if ps = [] then None
      else let n = real (length ps);
               mx = sum_list (map fst ps) / n;
               my = sum_list (map snd ps) / n;
               sxy = sum_list (map (\<lambda>(a, b). (a - mx) * (b - my)) ps);
               sxx = sum_list (map (\<lambda>(a, b). (a - mx)\<^sup>2) ps);
               syy = sum_list (map (\<lambda>(a, b). (b - my)\<^sup>2) ps)
           in if sxx = 0 \<or> syy = 0 then None else Some (sxy / sqrt (sxx * syy)))"

text \<open>
  Modelled from the spec: \<open>correlation_matrix\<close> of eda_cli/core.py, which is not among
  the sources. Spec 4.3: select the numeric columns; with fewer than two of them return
  an empty matrix; otherwise the matrix of pairwise Pearson correlations over those
  columns, nulls excluded pairwise. A matrix is a list of labelled rows, each a list of
  labelled entries, in column order.
\<close>

type_synonym CorrelationMatrix = "(string \<times> (string \<times> real option) list) list"

definition correlation_matrix :: "dataframe \<Rightarrow> CorrelationMatrix" where
  "correlation_matrix df =
     (let nums = numeric_columns df
      in if length nums < 2 then []
         else map (\<lambda>(a, xs). (a, map (\<lambda>(b, ys). (b, pearson (complete_pairs xs ys))) nums))
                  nums)"

text \<open>The entry in row \<open>i\<close> and column \<open>j\<close> of a matrix.\<close>

definition entry :: "CorrelationMatrix \<Rightarrow> nat \<Rightarrow> nat \<Rightarrow> real option" where
  "entry m i j = snd (snd (m ! i) ! j)"

section \<open>The HTTP API (eda_cli/api.py)\<close>

text \<open>
  A handler either raises \<open>HTTPException(status_code, detail)\<close> or returns a
  \<open>JSONResponse\<close>, whose status is 200.
\<close>

datatype response = HTTPException nat string | JSONResponse "(string \<times> json) list"

fun status_code :: "response \<Rightarrow> nat" where
  "status_code (HTTPException c d) = c"
| "status_code (JSONResponse content) = 200"

text \<open>\<open>str(KeyError(k))\<close> is the key in single quotes.\<close>

definition key_error :: "string \<Rightarrow> string" where
  "key_error k = [CHR 0x27] @ k @ [CHR 0x27]"

text \<open>
  \<open>POST /quality\<close>. The body is a dictionary. \<open>pd.DataFrame\<close> belongs to pandas: it is a
  parameter that either raises (\<open>Inl\<close>, the text of the exception) or builds a frame.
  The scorer is called with its default thresholds, the parameter \<open>cfg\<close>.
  \<open>build_frame\<close> is the body of the handler's \<open>try\<close>: the lookup of the key and the
  construction, either of which may raise.
\<close>

definition build_frame ::
  "(json \<Rightarrow> string + dataframe) \<Rightarrow> (string \<times> json) list \<Rightarrow> string + dataframe" where
  "build_frame DataFrame data =
     (case map_of data ''columns'' of
        None \<Rightarrow> Inl (key_error ''columns'')
      | Some cols \<Rightarrow> DataFrame cols)"

definition quality_from_dataframe ::
  "(json \<Rightarrow> string + dataframe) \<Rightarrow> quality_config \<Rightarrow> (string \<times> json) list \<Rightarrow> response" where
  "quality_from_dataframe DataFrame cfg data =
     (case build_frame DataFrame data of
        Inl e \<Rightarrow> HTTPException 400 (''Invalid input data: '' @ e)
      | Inr df \<Rightarrow>
          if df_empty df then HTTPException 400 ''Empty dataset''
          else let summary = summarize_dataset df;
                   missing_df = missing_table df;
                   flags = compute_quality_flags cfg summary missing_df
               in JSONResponse flags)"

text \<open>\<open>str.endswith\<close>, for one suffix and for a tuple of suffixes.\<close>

definition endswith :: "string \<Rightarrow> string \<Rightarrow> bool" where
  "endswith s suf = (length suf \<le> length s \<and> drop (length s - length suf) s = suf)"

definition endswith_any :: "string \<Rightarrow> string list \<Rightarrow> bool" where
  "endswith_any s sufs = list_ex (endswith s) sufs"

text \<open>
  An uploaded file: its name and what \<open>await file.read()\<close> gives, the bytes or an
  exception.
\<close>

record UploadFile =
  filename :: string
  read :: "string + string"

text \<open>
  \<open>POST /quality-from-csv\<close>. \<open>pd.read_csv\<close> is a parameter that either raises or parses
  the bytes into a frame. \<open>parse_upload\<close> is the body of the handler's \<open>try\<close>: reading
  the upload and parsing it.
\<close>

definition parse_upload ::
  "(string \<Rightarrow> string + dataframe) \<Rightarrow> UploadFile \<Rightarrow> string + dataframe" where
  "parse_upload read_csv file =
     (case read file of Inl e \<Rightarrow> Inl e | Inr contents \<Rightarrow> read_csv contents)"

definition quality_from_csv ::
  "(string \<Rightarrow> string + dataframe) \<Rightarrow> quality_config \<Rightarrow> UploadFile \<Rightarrow> response" where
  "quality_from_csv read_csv cfg file =
     (if \<not> endswith_any (filename file) [''.csv'', ''.txt'']
      then HTTPException 400 ''Only CSV files are allowed''
      else case parse_upload read_csv file of
        Inl e \<Rightarrow> HTTPException 400 (''Failed to parse CSV: '' @ e)
      | Inr df \<Rightarrow>
          if df_empty df then HTTPException 400 ''Empty dataset''
          else let summary = summarize_dataset df;
                   missing_df = missing_table df;
                   flags = compute_quality_flags cfg summary missing_df
               in JSONResponse flags)"

section \<open>The command line (eda_cli/cli.py)\<close>

text \<open>A \<open>pathlib.Path\<close>: \<open>Path(s)\<close>, or a path extended by a name with \<open>/\<close>.\<close>

datatype path = Path string | Slash path string

text \<open>
  The two messages of \<open>typer.BadParameter\<close> that \<open>_load_csv\<close> raises: the file is not
  found, or the CSV could not be read (with the text of the exception caught).
\<close>

datatype message = NotFound path | CannotRead string

text \<open>
  A command ends with a parameter error or with an exception that nothing catches.
\<close>

datatype error = BadParameter message | Raised string

text \<open>The lines a command prints with \<open>typer.echo\<close>.\<close>

datatype line =
    RowCount nat
  | ColCount nat
  | ColumnsHeading
  | SummaryTable
  | ReportDone path
  | MainMarkdown path
  | TableFiles
  | PlotFiles

text \<open>
  What a command does, in order: creating the output directory, running an analyzer of
  the core (by name), writing a frame with \<open>to_csv\<close>, calling the table writer of
  eda_cli/viz.py with the top categories and its target folder, calling a plotting function
  of eda_cli/viz.py (by name) with its target, dumping JSON to a file, writing the markdown
  report (its text is not modelled), printing a line.
\<close>

datatype event =
    Mkdir path
  | Compute string
  | ToCsv path
  | SaveTopCategories "(string \<times> (string \<times> nat) list) list" path
  | Plot string path
  | JsonDump path json
  | WriteText path
  | Echo line

text \<open>
  The environment of a run: which paths exist, what \<open>pd.read_csv\<close> does with a path, a
  separator and an encoding (an exception or a frame), and which operations raise there.
\<close>

record env =
  path_exists :: "path \<Rightarrow> bool"
  pd_read_csv :: "path \<Rightarrow> string \<Rightarrow> string \<Rightarrow> string + dataframe"
  raises :: "event \<Rightarrow> string option"

text \<open>A step of straight-line code: an operation, or a \<open>raise\<close> while computing its argument.\<close>

datatype action = Do event | Raise string

text \<open>
  Running steps in order after the events \<open>done\<close>. The first step that raises ends the
  command; the events before it have happened.
\<close>

fun run :: "env \<Rightarrow> action list \<Rightarrow> event list \<Rightarrow> error option \<times> event list" where
  "run env [] done = (None, done)"
| "run env (Raise msg # rest) done = (Some (Raised msg), done)"
| "run env (Do ev # rest) done =
     (case raises env ev of
        Some msg \<Rightarrow> (Some (Raised msg), done)
      | None \<Rightarrow> run env rest (done @ [ev]))"

definition load_csv :: "env \<Rightarrow> path \<Rightarrow> string \<Rightarrow> string \<Rightarrow> error + dataframe" where
  "load_csv env p sep encoding =
     (if \<not> path_exists env p then Inl (BadParameter (NotFound p))
      else case pd_read_csv env p sep encoding of
             Inl exc \<Rightarrow> Inl (BadParameter (CannotRead exc))
           | Inr df \<Rightarrow> Inr df)"

definition overview :: "env \<Rightarrow> string \<Rightarrow> string \<Rightarrow> string \<Rightarrow> error option \<times> event list" where
  "overview env p sep encoding =
     (case load_csv env (Path p) sep encoding of
        Inl e \<Rightarrow> (Some e, [])
      | Inr df \<Rightarrow>
          let summary = summarize_dataset df
          in run env [Do (Compute ''summarize_dataset''),
                      Do (Compute ''flatten_summary_for_print''),
                      Do (Echo (RowCount (n_rows summary))),
                      Do (Echo (ColCount (n_cols summary))),
                      Do (Echo ColumnsHeading),
                      Do (Echo SummaryTable)] [])"

text \<open>
  The arguments of \<open>report\<close>. \<open>top_k_categories\<close> is a count, the positive integer of
  the spec.
\<close>

record report_args =
  path :: string
  out_dir :: string
  sep :: string
  encoding :: string
  max_hist_columns :: int
  top_k_categories :: nat
  title :: string
  min_missing_share :: real
  json_summary :: bool

text \<open>The four lists of problematic columns, and their sorted union.\<close>

definition problematic_missing_cols :: "MissingTable \<Rightarrow> real \<Rightarrow> string list" where
  "problematic_missing_cols missing_df share =
     (if missing_df \<noteq> []
      then map fst (filter (\<lambda>(n, e). missing_share e \<ge> share) missing_df)
      else [])"

definition constant_cols :: "DatasetSummary \<Rightarrow> string list" where
  "constant_cols summary =
     map name (filter (\<lambda>col. unique col = 1 \<and> non_null col > 0) (columns summary))"

definition high_card_cols :: "DatasetSummary \<Rightarrow> string list" where
  "high_card_cols summary =
     map name (filter (\<lambda>col. \<not> is_numeric col \<and> unique col > 50 \<and> non_null col > 0)
                      (columns summary))"

definition low_var_cols :: "DatasetSummary \<Rightarrow> string list" where
  "low_var_cols summary =
     map name (filter (\<lambda>col. is_numeric col \<and>
                             (case std col of None \<Rightarrow> False
                              | Some s \<Rightarrow> s < 1 / 1000000 \<and> non_null col > 1))
                      (columns summary))"

text \<open>\<open>sorted(set(...))\<close>: the distinct names in ascending order.\<close>

definition problematic_columns :: "DatasetSummary \<Rightarrow> MissingTable \<Rightarrow> real \<Rightarrow> string list" where
  "problematic_columns summary missing_df share =
     sort (remdups (problematic_missing_cols missing_df share @ constant_cols summary @
                    high_card_cols summary @ low_var_cols summary))"

text \<open>\<open>d[k]\<close> on a dictionary raises \<open>KeyError\<close> for a missing key.\<close>

definition getitem :: "(string \<times> json) list \<Rightarrow> string \<Rightarrow> string + json" where
  "getitem d k = (case map_of d k of None \<Rightarrow> Inl (key_error k) | Some v \<Rightarrow> Inr v)"

text \<open>\<open>round(x, 4)\<close> on a real: to four decimals, a half going to the even neighbour.\<close>

definition round_half_even :: "real \<Rightarrow> int" where
  "round_half_even y =
     (let f = \<lfloor>y\<rfloor>; d = y - of_int f
      in if d < 1 / 2 then f
         else if d > 1 / 2 then f + 1
         else if even f then f else f + 1)"

definition round4 :: "real \<Rightarrow> real" where
  "round4 x = of_int (round_half_even (x * 10000)) / 10000"

definition round_score :: "json \<Rightarrow> string + json" where
  "round_score v =
     (case v of
        JNum x \<Rightarrow> Inr (JNum (round4 x))
      | JInt i \<Rightarrow> Inr (JInt i)
      | JBool b \<Rightarrow> Inr (JInt (if b then 1 else 0))
      | _ \<Rightarrow> Inl ''TypeError'')"

text \<open>The dictionary written to summary.json (lines 147 to 156 of cli.py).\<close>

definition json_summary_data ::
  "DatasetSummary \<Rightarrow> string list \<Rightarrow> (string \<times> json) list \<Rightarrow> string + json" where
  "json_summary_data summary problematic quality_flags =
     (case getitem quality_flags ''quality_score'' of
        Inl e \<Rightarrow> Inl e
      | Inr v \<Rightarrow>
          (case round_score v of
             Inl e \<Rightarrow> Inl e
           | Inr score \<Rightarrow>
               Inr (JObj [(''n_rows'', JInt (int (n_rows summary))),
                          (''n_cols'', JInt (int (n_cols summary))),
                          (''quality_score'', score),
                          (''problematic_columns'', JList (map JStr problematic)),
                          (''flags'',
                             JObj (filter (\<lambda>(k, v). k \<notin> set [''quality_score'', ''max_missing_share''])
                                          quality_flags))])))"

definition dump_summary :: "path \<Rightarrow> string + json \<Rightarrow> action" where
  "dump_summary p data = (case data of Inl e \<Rightarrow> Raise e | Inr j \<Rightarrow> Do (JsonDump p j))"

text \<open>
  The steps of \<open>report\<close> after the frame is loaded (lines 94 to 216 of cli.py), in the
  order of the code. The scorer is called with its default thresholds, the parameter
  \<open>cfg\<close>; \<open>top_categories\<close> is called with \<open>top_k\<close> only, so with the default of its
  optional cap on the columns, here none.
\<close>

definition report_steps :: "quality_config \<Rightarrow> report_args \<Rightarrow> dataframe \<Rightarrow> action list" where
  "report_steps cfg a df =
     (let out_root = Path (out_dir a);
          summary = summarize_dataset df;
          missing_df = missing_table df;
          corr_df = correlation_matrix df;
          top_cats = top_categories df None (top_k_categories a);
          quality_flags = compute_quality_flags cfg summary missing_df;
          problematic = problematic_columns summary missing_df (min_missing_share a);
          md_path = Slash out_root ''report.md''
      in [Do (Compute ''summarize_dataset''),
          Do (Compute ''flatten_summary_for_print''),
          Do (Compute ''missing_table''),
          Do (Compute ''correlation_matrix''),
          Do (Compute ''top_categories''),
          Do (Compute ''compute_quality_flags''),
          Do (ToCsv (Slash out_root ''summary.csv''))]
         @ (if missing_df \<noteq> [] then [Do (ToCsv (Slash out_root ''missing.csv''))] else [])
         @ (if corr_df \<noteq> [] then [Do (ToCsv (Slash out_root ''correlation.csv''))] else [])
         @ [Do (SaveTopCategories top_cats (Slash out_root ''top_categories'')),
            Do (Plot ''plot_categorical_bars'' out_root)]
         @ (if json_summary a
            then [dump_summary (Slash out_root ''summary.json'')
                    (json_summary_data summary problematic quality_flags)]
            else [])
         @ [Do (WriteText md_path),
            Do (Plot ''plot_histograms_per_column'' out_root),
            Do (Plot ''plot_missing_matrix'' (Slash out_root ''missing_matrix.png'')),
            Do (Plot ''plot_correlation_heatmap'' (Slash out_root ''correlation_heatmap.png'')),
            Do (Echo (ReportDone out_root)),
            Do (Echo (MainMarkdown md_path)),
            Do (Echo TableFiles),
            Do (Echo PlotFiles)])"

text \<open>
  \<open>report\<close>: the output directory is created first (lines 89 and 90), then the frame is
  loaded (line 92), then the steps above run.
\<close>

definition report :: "env \<Rightarrow> quality_config \<Rightarrow> report_args \<Rightarrow> error option \<times> event list" where
  "report env cfg a =
     (case run env [Do (Mkdir (Path (out_dir a)))] [] of
        (Some e, done) \<Rightarrow> (Some e, done)
      | (None, done) \<Rightarrow>
          (case load_csv env (Path (path a)) (sep a) (encoding a) of
             Inl e \<Rightarrow> (Some e, done)
           | Inr df \<Rightarrow> run env (report_steps cfg a df) done))"

section \<open>Auxiliary definitions\<close>

text \<open>The operations among the steps of a command, and whether a step is a \<open>raise\<close>.\<close>

fun events_of :: "action list \<Rightarrow> event list" where
  "events_of [] = []"
| "events_of (Do ev # rest) = ev # events_of rest"
| "events_of (Raise msg # rest) = events_of rest"

fun is_raise :: "action \<Rightarrow> bool" where
  "is_raise (Raise msg) = True"
| "is_raise (Do ev) = False"

text \<open>The position of the first occurrence of a value in a list.\<close>

fun first_index :: "'a list \<Rightarrow> 'a \<Rightarrow> nat" where
  "first_index [] v = 0"
| "first_index (x # xs) v = (if x = v then 0 else Suc (first_index xs v))"

section \<open>Example inputs\<close>

text \<open>Thresholds of the scorer: a floor of 100 rows, and a penalty of one sixth per flag.\<close>

definition cfg0 :: quality_config where
  "cfg0 = \<lparr>min_rows = 100, max_cols = 100, max_missing = 1 / 2, penalty = 1 / 6\<rparr>"

text \<open>A frame with a header and no rows, and a frame with one numeric column.\<close>

definition header_only :: dataframe where
  "header_only = [(''a'', NumCol [])]"

definition one_column :: dataframe where
  "one_column = [(''a'', NumCol [Some 1, Some 2])]"

text \<open>Stand-ins for \<open>pd.DataFrame\<close> and \<open>pd.read_csv\<close>: one that raises, two that parse.\<close>

definition failing_parse :: "'a \<Rightarrow> string + dataframe" where
  "failing_parse x = Inl ''All arrays must be of the same length''"

definition header_parse :: "'a \<Rightarrow> string + dataframe" where
  "header_parse x = Inr header_only"

definition column_parse :: "'a \<Rightarrow> string + dataframe" where
  "column_parse x = Inr one_column"

definition csv_upload :: UploadFile where
  "csv_upload = \<lparr>filename = ''data.csv'', read = Inr ''a''\<rparr>"

definition xlsx_upload :: UploadFile where
  "xlsx_upload = \<lparr>filename = ''data.xlsx'', read = Inr ''a''\<rparr>"

text \<open>A summary with one constant text column, for the scorer.\<close>

definition constant_summary :: DatasetSummary where
  "constant_summary =
     \<lparr>n_rows = 4, n_cols = 1,
      columns = [\<lparr>name = ''city'', dtype = ''text'', is_numeric = False, non_null = 4,
                  unique = 1, mean = None, std = None\<rparr>]\<rparr>"

text \<open>A frame whose text column has two values of equal frequency.\<close>

definition tied_df :: dataframe where
  "tied_df = [(''id'', NumCol [Some 1, Some 2, Some 3, Some 4, Some 5, Some 6]),
              (''city'', StrCol [Some ''B'', Some ''A'', None, Some ''A'', Some ''B'', Some ''C''])]"

text \<open>
  A frame of 51 rows, after the scenario of the tests: \<open>id\<close> has 51 distinct text values,
  \<open>const\<close> one text value, \<open>gap\<close> two text values and ten nulls, \<open>tiny\<close> is numeric with
  values 1e-7 and 0, and \<open>wide\<close> is numeric with values 1 and 0.
\<close>

definition id_values :: "string list" where
  "id_values = map (\<lambda>i. replicate i CHR ''x'') [0..<51]"

definition problem_df :: dataframe where
  "problem_df =
     [(''id'', StrCol (map Some id_values)),
      (''const'', StrCol (replicate 51 (Some ''A''))),
      (''gap'', StrCol (Some ''u'' # replicate 40 (Some ''v'') @ replicate 10 None)),
      (''tiny'', NumCol (Some (1 / 10000000) # replicate 50 (Some 0))),
      (''wide'', NumCol (Some 1 # replicate 50 (Some 0)))]"

text \<open>
  Arguments of \<open>report\<close> with the defaults of the command and \<open>--json-summary\<close>; an
  environment where the file loads as the given frame and nothing raises; one where the
  file does not exist; one where it exists and cannot be parsed; and one where the file
  does not exist and, besides, the output directory cannot be created.
\<close>

definition args0 :: report_args where
  "args0 = \<lparr>path = ''data.csv'', out_dir = ''reports'', sep = '','', encoding = ''utf-8'',
     max_hist_columns = 6, top_k_categories = 5, title = ''EDA'', min_missing_share = 1 / 10,
     json_summary = True\<rparr>"

definition loaded_env :: "dataframe \<Rightarrow> env" where
  "loaded_env df = \<lparr>path_exists = (\<lambda>p. True), pd_read_csv = (\<lambda>p s e. Inr df), raises = (\<lambda>ev. None)\<rparr>"

definition missing_env :: env where
  "missing_env = \<lparr>path_exists = (\<lambda>p. False), pd_read_csv = (\<lambda>p s e. Inl ''No such file''),
     raises = (\<lambda>ev. None)\<rparr>"

definition unreadable_env :: env where
  "unreadable_env = \<lparr>path_exists = (\<lambda>p. True),
     pd_read_csv = (\<lambda>p s e. Inl ''Error tokenizing data''), raises = (\<lambda>ev. None)\<rparr>"

definition blocked_env :: env where
  "blocked_env = \<lparr>path_exists = (\<lambda>p. False), pd_read_csv = (\<lambda>p s e. Inl ''No such file''),
     raises = (\<lambda>ev. case ev of Mkdir p \<Rightarrow> Some ''FileExistsError'' | _ \<Rightarrow> None)\<rparr>"


section \<open>Properties of the HTTP API\<close>

lemma df_len_0_empty: "df_len df = 0 \<Longrightarrow> df_empty df"
  by (simp add: df_empty_def)

text \<open>
  Claim C1. A request to \<open>POST /quality\<close> or \<open>POST /quality-from-csv\<close> whose input parses
  into a frame with 0 rows is answered with status 400, and no quality flags are returned.
\<close>

theorem empty_dataset_rejected:
  "(build_frame DataFrame data = Inr df \<and> df_len df = 0 \<longrightarrow>
      quality_from_dataframe DataFrame cfg data = HTTPException 400 ''Empty dataset''
      \<and> status_code (quality_from_dataframe DataFrame cfg data) = 400
      \<and> (\<forall>flags. quality_from_dataframe DataFrame cfg data \<noteq> JSONResponse flags))
   \<and> (parse_upload rd file = Inr df \<and> df_len df = 0 \<longrightarrow>
      status_code (quality_from_csv rd cfg file) = 400
      \<and> (\<forall>flags. quality_from_csv rd cfg file \<noteq> JSONResponse flags))"
  by (simp add: quality_from_dataframe_def quality_from_csv_def df_len_0_empty)

theorem empty_dataset_rejected_witness:
  "build_frame header_parse [(''columns'', JObj [(''a'', JList [])])] = Inr header_only
   \<and> df_len header_only = 0
   \<and> quality_from_dataframe header_parse cfg0 [(''columns'', JObj [(''a'', JList [])])]
       = HTTPException 400 ''Empty dataset''
   \<and> parse_upload header_parse csv_upload = Inr header_only
   \<and> quality_from_csv header_parse cfg0 csv_upload = HTTPException 400 ''Empty dataset''"
  using empty_dataset_rejected [of header_parse "[(''columns'', JObj [(''a'', JList [])])]"
      header_only cfg0 header_parse csv_upload]
  by (simp add: build_frame_def parse_upload_def header_parse_def header_only_def df_len_def
      csv_upload_def quality_from_csv_def endswith_any_def endswith_def df_empty_def)

text \<open>
  Claim C9. Whatever exception is raised while the frame is built from the body of
  \<open>POST /quality\<close> (the key \<open>columns\<close> is missing, or \<open>pd.DataFrame\<close> raises on its value),
  the answer is status 400 with the message \<open>Invalid input data:\<close> followed by the text
  of the exception.
\<close>

theorem invalid_body_rejected:
  "(build_frame DataFrame data = Inl e \<longrightarrow>
      quality_from_dataframe DataFrame cfg data = HTTPException 400 (''Invalid input data: '' @ e)
      \<and> status_code (quality_from_dataframe DataFrame cfg data) = 400)
   \<and> (map_of data ''columns'' = None \<longrightarrow>
        build_frame DataFrame data = Inl (key_error ''columns''))
   \<and> (map_of data ''columns'' = Some cols \<and> DataFrame cols = Inl e \<longrightarrow>
        build_frame DataFrame data = Inl e)"
  by (simp add: quality_from_dataframe_def build_frame_def)

theorem invalid_body_rejected_witness:
  "map_of ([] :: (string \<times> json) list) ''columns'' = None
   \<and> build_frame column_parse [] = Inl (key_error ''columns'')
   \<and> quality_from_dataframe column_parse cfg0 []
       = HTTPException 400 (''Invalid input data: '' @ key_error ''columns'')
   \<and> map_of [(''columns'', JObj [(''a'', JList [JInt 1]), (''b'', JList [])])] ''columns''
       = Some (JObj [(''a'', JList [JInt 1]), (''b'', JList [])])
   \<and> failing_parse (JObj [(''a'', JList [JInt 1]), (''b'', JList [])])
       = Inl ''All arrays must be of the same length''
   \<and> quality_from_dataframe failing_parse cfg0
         [(''columns'', JObj [(''a'', JList [JInt 1]), (''b'', JList [])])]
       = HTTPException 400 ''Invalid input data: All arrays must be of the same length''"
  using invalid_body_rejected [of column_parse "[]" "key_error ''columns''" cfg0]
    invalid_body_rejected [of failing_parse
      "[(''columns'', JObj [(''a'', JList [JInt 1]), (''b'', JList [])])]"
      "''All arrays must be of the same length''" cfg0
      "JObj [(''a'', JList [JInt 1]), (''b'', JList [])]"]
  by (simp add: failing_parse_def)

text \<open>
  Claim C4. \<open>POST /quality-from-csv\<close> answers 400 when the name of the upload ends neither
  in \<open>.csv\<close> nor in \<open>.txt\<close>, and 400 when reading the upload or parsing it raises. A
  response with quality flags is given only for an upload that passes the check of the
  name, parses, and is not empty; the flags are those of the parsed frame.
\<close>

theorem csv_upload_responses:
  "(\<not> endswith_any (filename file) [''.csv'', ''.txt''] \<longrightarrow>
      quality_from_csv rd cfg file = HTTPException 400 ''Only CSV files are allowed'')
   \<and> (parse_upload rd file = Inl e \<longrightarrow> status_code (quality_from_csv rd cfg file) = 400)
   \<and> (quality_from_csv rd cfg file = JSONResponse flags \<longrightarrow>
        endswith_any (filename file) [''.csv'', ''.txt'']
        \<and> (\<exists>df. parse_upload rd file = Inr df \<and> \<not> df_empty df
              \<and> flags = compute_quality_flags cfg (summarize_dataset df) (missing_table df)))"
  by (auto simp: quality_from_csv_def Let_def split: sum.splits if_splits)

lemma csv_upload_name: "endswith_any (filename csv_upload) [''.csv'', ''.txt'']"
  by (simp add: csv_upload_def endswith_any_def endswith_def)

lemma csv_upload_parsed: "parse_upload column_parse csv_upload = Inr one_column"
  by (simp add: parse_upload_def csv_upload_def column_parse_def)

lemma one_column_not_empty: "\<not> df_empty one_column"
  by (simp add: df_empty_def df_len_def one_column_def)

lemma csv_upload_accepted:
  "quality_from_csv column_parse cfg0 csv_upload =
     JSONResponse (compute_quality_flags cfg0 (summarize_dataset one_column)
                     (missing_table one_column))"
  unfolding quality_from_csv_def
  by (simp add: csv_upload_name csv_upload_parsed one_column_not_empty)

theorem csv_upload_responses_witness:
  "\<not> endswith_any (filename xlsx_upload) [''.csv'', ''.txt'']
   \<and> quality_from_csv column_parse cfg0 xlsx_upload
       = HTTPException 400 ''Only CSV files are allowed''
   \<and> parse_upload failing_parse csv_upload = Inl ''All arrays must be of the same length''
   \<and> status_code (quality_from_csv failing_parse cfg0 csv_upload) = 400
   \<and> quality_from_csv column_parse cfg0 csv_upload =
       JSONResponse (compute_quality_flags cfg0 (summarize_dataset one_column)
                       (missing_table one_column))
   \<and> endswith_any (filename csv_upload) [''.csv'', ''.txt'']"
proof -
  have a: "\<not> endswith_any (filename xlsx_upload) [''.csv'', ''.txt'']"
    by (simp add: xlsx_upload_def endswith_any_def endswith_def)
  have b: "parse_upload failing_parse csv_upload = Inl ''All arrays must be of the same length''"
    by (simp add: parse_upload_def csv_upload_def failing_parse_def)
  have 1: "quality_from_csv column_parse cfg0 xlsx_upload
      = HTTPException 400 ''Only CSV files are allowed''"
    using csv_upload_responses [of xlsx_upload column_parse cfg0] a by blast
  have 2: "status_code (quality_from_csv failing_parse cfg0 csv_upload) = 400"
    using csv_upload_responses [of csv_upload failing_parse cfg0] b by blast
  have 3: "endswith_any (filename csv_upload) [''.csv'', ''.txt'']"
    using csv_upload_responses [of csv_upload column_parse cfg0] csv_upload_accepted by blast
  show ?thesis
    by (intro conjI a b 1 2 3 csv_upload_accepted)
qed

section \<open>Properties of the statistical core\<close>

lemma length_filter_of_bool: "length (filter P xs) = sum_list (map (\<lambda>x. of_bool (P x)) xs)"
  by (induction xs) auto

lemma decrement_eq: "decrement p bs s = s - p * real (sum_list (map of_bool bs))"
  by (induction bs arbitrary: s) (auto simp: algebra_simps)

lemma flags_shape:
  "\<exists>b1 b2 b3 b4 b5 b6 m.
     compute_quality_flags cfg summary missing_df =
       [(''too_few_rows'', JBool b1),
        (''too_many_columns'', JBool b2),
        (''max_missing_share'', JNum m),
        (''too_many_missing'', JBool b3),
        (''has_constant_columns'', JBool b4),
        (''has_high_cardinality_categoricals'', JBool b5),
        (''has_numeric_columns_with_low_variation'', JBool b6),
        (''quality_score'', JNum (max 0 (decrement (penalty cfg) [b1, b2, b3, b4, b5, b6] 1)))]"
  unfolding compute_quality_flags_def Let_def by blast

lemma triggered_shape:
  "triggered [(''too_few_rows'', JBool b1),
        (''too_many_columns'', JBool b2),
        (''max_missing_share'', JNum m),
        (''too_many_missing'', JBool b3),
        (''has_constant_columns'', JBool b4),
        (''has_high_cardinality_categoricals'', JBool b5),
        (''has_numeric_columns_with_low_variation'', JBool b6),
        (''quality_score'', JNum x)] = sum_list (map of_bool [b1, b2, b3, b4, b5, b6])"
  unfolding triggered_def flag_names_def length_filter_of_bool by simp

lemma score_shape:
  "quality_score [(''too_few_rows'', JBool b1),
        (''too_many_columns'', JBool b2),
        (''max_missing_share'', JNum m),
        (''too_many_missing'', JBool b3),
        (''has_constant_columns'', JBool b4),
        (''has_high_cardinality_categoricals'', JBool b5),
        (''has_numeric_columns_with_low_variation'', JBool b6),
        (''quality_score'', JNum x)] = Some x"
  by (simp add: quality_score_def)

lemma quality_score_eq:
  "quality_score (compute_quality_flags cfg summary missing_df) =
     Some (max 0 (1 - penalty cfg * real (triggered (compute_quality_flags cfg summary missing_df))))"
proof -
  obtain b1 b2 b3 b4 b5 b6 m where f: "compute_quality_flags cfg summary missing_df =
       [(''too_few_rows'', JBool b1),
        (''too_many_columns'', JBool b2),
        (''max_missing_share'', JNum m),
        (''too_many_missing'', JBool b3),
        (''has_constant_columns'', JBool b4),
        (''has_high_cardinality_categoricals'', JBool b5),
        (''has_numeric_columns_with_low_variation'', JBool b6),
        (''quality_score'', JNum (max 0 (decrement (penalty cfg) [b1, b2, b3, b4, b5, b6] 1)))]"
    using flags_shape by blast
  show ?thesis
    unfolding f triggered_shape score_shape decrement_eq ..
qed

text \<open>
  Claim C2. For every summary and missing table, the \<open>quality_score\<close> that
  \<open>compute_quality_flags\<close> returns is 1.0 minus the penalty times the number of the six
  flags that are set, floored at 0.0; with a penalty that is not negative it lies between
  0.0 and 1.0. The scorer is a function of its arguments: the same summary, table and
  thresholds give the same dictionary.
\<close>

theorem quality_score_formula:
  assumes "0 \<le> penalty cfg"
  shows "\<exists>s. quality_score (compute_quality_flags cfg summary missing_df) = Some s
    \<and> s = max 0 (1 - penalty cfg
                      * real (triggered (compute_quality_flags cfg summary missing_df)))
    \<and> triggered (compute_quality_flags cfg summary missing_df) \<le> 6
    \<and> 0 \<le> s \<and> s \<le> 1"
proof -
  let ?k = "triggered (compute_quality_flags cfg summary missing_df)"
  let ?s = "max 0 (1 - penalty cfg * real ?k)"
  have "0 \<le> penalty cfg * real ?k"
    using assms by (rule mult_nonneg_nonneg) simp
  then have le: "?s \<le> 1"
    by linarith
  have ge: "0 \<le> ?s"
    by linarith
  have "length (filter (\<lambda>k. map_of (compute_quality_flags cfg summary missing_df) k
                           = Some (JBool True)) flag_names) \<le> length flag_names"
    by (rule length_filter_le)
  also have "length flag_names = 6"
    by (simp add: flag_names_def)
  finally have k: "?k \<le> 6"
    by (simp only: triggered_def)
  have q: "quality_score (compute_quality_flags cfg summary missing_df) = Some ?s"
    by (rule quality_score_eq)
  from q k ge le show ?thesis
    by blast
qed

lemma penalty_cfg0: "penalty cfg0 = 1 / 6"
  by (simp add: cfg0_def)

lemma constant_summary_flags:
  "compute_quality_flags cfg0 constant_summary [] =
     [(''too_few_rows'', JBool True),
      (''too_many_columns'', JBool False),
      (''max_missing_share'', JNum 0),
      (''too_many_missing'', JBool False),
      (''has_constant_columns'', JBool True),
      (''has_high_cardinality_categoricals'', JBool False),
      (''has_numeric_columns_with_low_variation'', JBool False),
      (''quality_score'', JNum (2 / 3))]"
  by (simp add: cfg0_def constant_summary_def compute_quality_flags_def Let_def
      max_missing_share_of_def is_constant_def is_high_cardinality_def is_low_variation_def)

lemma constant_summary_triggered:
  "triggered (compute_quality_flags cfg0 constant_summary []) = 2"
  unfolding constant_summary_flags by (simp add: triggered_def flag_names_def)

theorem quality_score_formula_witness:
  "0 \<le> penalty cfg0
   \<and> triggered (compute_quality_flags cfg0 constant_summary []) = 2
   \<and> quality_score (compute_quality_flags cfg0 constant_summary []) = Some (2 / 3)"
proof -
  have p: "0 \<le> penalty cfg0"
    by (simp add: penalty_cfg0)
  obtain s where "quality_score (compute_quality_flags cfg0 constant_summary []) = Some s"
    and "s = max 0 (1 - penalty cfg0
                      * real (triggered (compute_quality_flags cfg0 constant_summary [])))"
    using quality_score_formula [OF p, of constant_summary "[]"] by blast
  then have "quality_score (compute_quality_flags cfg0 constant_summary []) = Some (2 / 3)"
    by (simp add: constant_summary_triggered penalty_cfg0)
  then show ?thesis
    using p constant_summary_triggered by blast
qed


lemma sample_top_categories:
  "top_categories sample_df (Some 5) 2 = [(''city'', [(''A'', 2), (''B'', 1)])]"
  by (simp add: sample_df_def top_categories_def non_nulls_def value_counts_def)

text \<open>
  Claim C8. For the frame with the columns age = [10, 20, 30, None],
  height = [140, 150, 160, 170] and city = ["A", "B", "A", None]: the summary has 4 rows
  and 3 columns, the missing table counts 1 missing value for \<open>age\<close>, and the top
  categories with \<open>top_k = 2\<close> give for \<open>city\<close> a table of at most 2 rows, one of them
  for the value \<open>A\<close>.
\<close>

theorem sample_frame_scenario:
  "n_rows (summarize_dataset sample_df) = 4
   \<and> n_cols (summarize_dataset sample_df) = 3
   \<and> map_option missing_count (map_of (missing_table sample_df) ''age'') = Some 1
   \<and> (\<exists>t. map_of (top_categories sample_df (Some 5) 2) ''city'' = Some t
          \<and> length t \<le> 2 \<and> ''A'' \<in> fst ` set t)
   \<and> map_of (top_categories sample_df (Some 5) 2) ''city'' = Some [(''A'', 2), (''B'', 1)]"
  unfolding sample_top_categories
  by (simp add: summarize_dataset_def sample_df_def df_len_def missing_table_def nulls_def)

section \<open>Properties of the categorical analyzer\<close>

lemma set_first_seen: "set (first_seen xs) = set xs"
  by (induction xs) auto

lemma first_seen_order:
  "sorted_wrt (\<lambda>v w. first_index xs v < first_index xs w) (first_seen xs)"
proof (induction xs)
  case Nil
  then show ?case by simp
next
  case (Cons x xs)
  have "sorted_wrt (\<lambda>v w. first_index xs v < first_index xs w) (removeAll x (first_seen xs))"
    using Cons by (simp add: removeAll_filter_not_eq sorted_wrt_filter)
  then have "sorted_wrt (\<lambda>v w. first_index (x # xs) v < first_index (x # xs) w)
               (removeAll x (first_seen xs))"
    by (rule sorted_wrt_mono_rel [rotated]) auto
  then show ?case
    by auto
qed

lemma insort_key_keeps_order:
  assumes "sorted_wrt (\<lambda>a b. f a < f b \<or> (f a = f b \<and> Q a b)) ys"
    and "\<forall>y\<in>set ys. Q x y"
  shows "sorted_wrt (\<lambda>a b. f a < f b \<or> (f a = f b \<and> Q a b)) (insort_key f x ys)"
  using assms
proof (induction ys)
  case Nil
  then show ?case by simp
next
  case (Cons y ys)
  show ?case
  proof (cases "f x \<le> f y")
    case True
    have "\<forall>z\<in>set ys. f y \<le> f z"
      using Cons.prems(1) by auto
    then have "\<forall>z\<in>set (y # ys). f x < f z \<or> (f x = f z \<and> Q x z)"
      using True Cons.prems(2) by (auto simp: le_less) 
    then show ?thesis
      using True Cons.prems(1) by simp
  next
    case False
    then have "f y < f x" by simp
    moreover have "sorted_wrt (\<lambda>a b. f a < f b \<or> (f a = f b \<and> Q a b)) (insort_key f x ys)"
      using Cons by simp
    ultimately show ?thesis
      using False Cons.prems(1) by (auto simp: set_insort_key)
  qed
qed

lemma sort_key_keeps_order:
  assumes "sorted_wrt Q xs"
  shows "sorted_wrt (\<lambda>a b. f a < f b \<or> (f a = f b \<and> Q a b)) (sort_key f xs)"
  using assms
proof (induction xs)
  case Nil
  then show ?case by simp
next
  case (Cons x xs)
  then have "\<forall>y\<in>set (sort_key f xs). Q x y"
    by simp
  then show ?case
    using Cons by (simp add: insort_key_keeps_order)
qed

lemma value_counts_order:
  "sorted_wrt (\<lambda>a b. snd b < snd a \<or>
                 (snd a = snd b \<and> first_index vs (fst a) < first_index vs (fst b)))
     (value_counts vs)"
proof -
  let ?f = "\<lambda>(v, c). - int c"
  let ?Q = "\<lambda>a b. first_index vs (fst a) < first_index vs (fst b)"
  have "sorted_wrt ?Q (map (\<lambda>v. (v, count_list vs v)) (first_seen vs))"
    using first_seen_order [of vs] by (simp add: sorted_wrt_map)
  then have "sorted_wrt (\<lambda>a b. ?f a < ?f b \<or> (?f a = ?f b \<and> ?Q a b)) (value_counts vs)"
    unfolding value_counts_def by (rule sort_key_keeps_order)
  then show ?thesis
    by (rule sorted_wrt_mono_rel [rotated]) (auto simp: case_prod_beta)
qed

lemma value_counts_entries:
  "e \<in> set (value_counts vs) \<Longrightarrow> fst e \<in> set vs \<and> snd e = count_list vs (fst e)"
  by (auto simp: value_counts_def set_first_seen)

lemma text_columns_sound: "(n, xs) \<in> set (text_columns df) \<Longrightarrow> (n, StrCol xs) \<in> set df"
  by (induction df rule: text_columns.induct) auto

lemma top_categories_table:
  assumes "(n, tbl) \<in> set (top_categories df max_columns top_k)"
  shows "\<exists>xs. (n, StrCol xs) \<in> set df \<and> non_nulls xs \<noteq> []
           \<and> tbl = take top_k (value_counts (non_nulls xs))"
proof -
  let ?chosen = "case max_columns of None \<Rightarrow> text_columns df | Some m \<Rightarrow> take m (text_columns df)"
  from assms obtain xs where "(n, xs) \<in> set ?chosen" and "non_nulls xs \<noteq> []"
    and "tbl = take top_k (value_counts (non_nulls xs))"
    unfolding top_categories_def Let_def by (auto split: if_splits)
  moreover have "set ?chosen \<subseteq> set (text_columns df)"
    by (auto split: option.splits dest: in_set_takeD)
  ultimately show ?thesis
    using text_columns_sound by blast
qed

text \<open>
  Claim C6. For every frame and every \<open>top_k\<close> (in particular every positive one), each
  table of \<open>top_categories\<close> belongs to a text column of the frame, has at most \<open>top_k\<close>
  rows, each a value of the column with its frequency there; the rows are in descending
  order of frequency, and rows of equal frequency are in the order in which their values
  first occur in the column.
\<close>

theorem top_categories_order:
  assumes "(n, tbl) \<in> set (top_categories df max_columns top_k)"
  shows "\<exists>xs. (n, StrCol xs) \<in> set df
    \<and> length tbl \<le> top_k
    \<and> (\<forall>e\<in>set tbl. fst e \<in> set (non_nulls xs) \<and> snd e = count_list (non_nulls xs) (fst e))
    \<and> sorted_wrt (\<lambda>a b. snd a \<ge> snd b) tbl
    \<and> sorted_wrt (\<lambda>a b. snd a = snd b \<longrightarrow>
                   first_index (non_nulls xs) (fst a) < first_index (non_nulls xs) (fst b)) tbl"
proof -
  obtain xs where col: "(n, StrCol xs) \<in> set df"
    and tbl: "tbl = take top_k (value_counts (non_nulls xs))"
    using top_categories_table [OF assms] by blast
  let ?vs = "non_nulls xs"
  have ord: "sorted_wrt (\<lambda>a b. snd b < snd a \<or>
                 (snd a = snd b \<and> first_index ?vs (fst a) < first_index ?vs (fst b))) tbl"
    unfolding tbl using value_counts_order by (rule sorted_wrt_take)
  have len: "length tbl \<le> top_k"
    unfolding tbl by simp
  have ent: "\<forall>e\<in>set tbl. fst e \<in> set ?vs \<and> snd e = count_list ?vs (fst e)"
    unfolding tbl using value_counts_entries by (metis in_set_takeD)
  have desc: "sorted_wrt (\<lambda>a b. snd a \<ge> snd b) tbl"
    using ord by (rule sorted_wrt_mono_rel [rotated]) auto
  have ties: "sorted_wrt (\<lambda>a b. snd a = snd b \<longrightarrow>
                   first_index ?vs (fst a) < first_index ?vs (fst b)) tbl"
    using ord by (rule sorted_wrt_mono_rel [rotated]) auto
  show ?thesis
    by (intro exI [of _ xs] conjI col len ent desc ties)
qed

lemma tied_top_categories:
  "(''city'', [(''B'', 2), (''A'', 2)]) \<in> set (top_categories tied_df None 2)"
  by (simp add: top_categories_def tied_df_def non_nulls_def value_counts_def)

theorem top_categories_order_witness:
  "(''city'', [(''B'', 2), (''A'', 2)]) \<in> set (top_categories tied_df None 2)
   \<and> (\<exists>xs. (''city'', StrCol xs) \<in> set tied_df
    \<and> length [(''B'', 2 :: nat), (''A'', 2)] \<le> 2
    \<and> sorted_wrt (\<lambda>a b. snd a = snd b \<longrightarrow>
                   first_index (non_nulls xs) (fst a) < first_index (non_nulls xs) (fst b))
         [(''B'', 2 :: nat), (''A'', 2)])"
proof -
  obtain xs where "(''city'', StrCol xs) \<in> set tied_df"
    and "length [(''B'', 2 :: nat), (''A'', 2)] \<le> 2"
    and "sorted_wrt (\<lambda>a b. snd a = snd b \<longrightarrow>
                   first_index (non_nulls xs) (fst a) < first_index (non_nulls xs) (fst b))
         [(''B'', 2 :: nat), (''A'', 2)]"
    using top_categories_order [OF tied_top_categories] by blast
  then show ?thesis
    using tied_top_categories by blast
qed

section \<open>Properties of the correlation analyzer\<close>

lemma complete_pairs_swap: "complete_pairs ys xs = map prod.swap (complete_pairs xs ys)"
proof (induction xs arbitrary: ys)
  case Nil
  then show ?case by (simp add: complete_pairs_def)
next
  case (Cons x xs)
  show ?case
  proof (cases ys)
    case Nil
    then show ?thesis by (simp add: complete_pairs_def)
  next
    case (Cons y ys')
    then show ?thesis
      using Cons.IH [of ys'] by (simp add: complete_pairs_def split: option.splits)
  qed
qed

lemma pearson_swap: "pearson (map prod.swap ps) = pearson ps"
  unfolding pearson_def Let_def
  by (simp add: comp_def case_prod_unfold mult.commute disj_commute)

lemma complete_pairs_self: "complete_pairs xs xs = map (\<lambda>v. (v, v)) (non_nulls xs)"
  by (induction xs) (auto simp: complete_pairs_def non_nulls_def split: option.splits)

lemma sum_list_all_equal: "\<forall>v\<in>set vs. v = c \<Longrightarrow> sum_list vs = real (length vs) * (c :: real)"
  by (induction vs) (auto simp: algebra_simps)

lemma no_variation_iff:
  assumes "vs \<noteq> []"
  shows "(sum_list (map (\<lambda>v. (v - sum_list vs / real (length vs))\<^sup>2) vs) = 0)
           = (length (remdups vs) \<le> 1)"
proof -
  let ?m = "sum_list vs / real (length vs)"
  have "(sum_list (map (\<lambda>v. (v - ?m)\<^sup>2) vs) = 0) = (\<forall>x\<in>set (map (\<lambda>v. (v - ?m)\<^sup>2) vs). x = 0)"
    by (rule sum_list_nonneg_eq_0_iff) auto
  also have "\<dots> = (\<forall>v\<in>set vs. v = ?m)"
    by auto
  also have "\<dots> = (length (remdups vs) \<le> 1)"
  proof
    assume "\<forall>v\<in>set vs. v = ?m"
    then have "set vs \<subseteq> {?m}" by auto
    then have "card (set vs) \<le> card {?m}" by (intro card_mono) auto
    then show "length (remdups vs) \<le> 1" by (simp add: length_remdups_card_conv)
  next
    assume "length (remdups vs) \<le> 1"
    then have "card (set vs) \<le> 1" by (simp add: length_remdups_card_conv)
    moreover have "0 < card (set vs)" using assms by (simp add: card_gt_0_iff)
    ultimately have "card (set vs) = 1" by linarith
    then obtain c where c: "set vs = {c}" by (rule card_1_singletonE)
    then have "sum_list vs = real (length vs) * c"
      by (intro sum_list_all_equal) auto
    then have "?m = c" using assms by simp
    then show "\<forall>v\<in>set vs. v = ?m" using c by auto
  qed
  finally show ?thesis .
qed

lemma pearson_self:
  "pearson (map (\<lambda>v. (v, v)) vs) = (if 1 < length (remdups vs) then Some 1 else None)"
proof (cases "vs = []")
  case True
  then show ?thesis by (simp add: pearson_def)
next
  case False
  let ?S = "sum_list (map (\<lambda>v. (v - sum_list vs / real (length vs))\<^sup>2) vs)"
  have eq: "pearson (map (\<lambda>v. (v, v)) vs) = (if ?S = 0 then None else Some (?S / sqrt (?S * ?S)))"
    using False by (simp add: pearson_def Let_def comp_def power2_eq_square)
  have nonneg: "0 \<le> ?S"
    by (rule sum_list_nonneg) auto
  have "?S \<noteq> 0 \<Longrightarrow> ?S / sqrt (?S * ?S) = 1"
    using nonneg by simp
  then show ?thesis
    unfolding eq using no_variation_iff [OF False] by auto
qed

lemma correlation_entry:
  assumes "2 \<le> length (numeric_columns df)"
    and "i < length (numeric_columns df)" and "j < length (numeric_columns df)"
  shows "entry (correlation_matrix df) i j =
           pearson (complete_pairs (snd (numeric_columns df ! i)) (snd (numeric_columns df ! j)))"
  using assms by (simp add: correlation_matrix_def entry_def Let_def case_prod_beta)

text \<open>
  The correlation matrix of the model. With fewer than two numeric columns it is empty.
  Otherwise it has one row and one column for each numeric column and it is symmetric. A
  diagonal entry of the model is 1.0 for a column with at least two distinct non-null
  values. For a column without variation Pearson's coefficient is a quotient of zeros: the
  spec does not say what the matrix holds there, and the model leaves the entry undefined.
\<close>

lemma correlation_matrix_entries:
  "(length (numeric_columns df) < 2 \<longrightarrow> correlation_matrix df = [])
   \<and> (2 \<le> length (numeric_columns df) \<longrightarrow>
        map fst (correlation_matrix df) = map fst (numeric_columns df)
        \<and> (\<forall>row\<in>set (correlation_matrix df).
              map fst (snd row) = map fst (numeric_columns df))
        \<and> (\<forall>i<length (numeric_columns df). \<forall>j<length (numeric_columns df).
              entry (correlation_matrix df) i j = entry (correlation_matrix df) j i)
        \<and> (\<forall>i<length (numeric_columns df).
              entry (correlation_matrix df) i i =
                (if 1 < length (remdups (non_nulls (snd (numeric_columns df ! i))))
                 then Some 1 else None)))"
proof (intro conjI impI allI)
  assume "length (numeric_columns df) < 2"
  then show "correlation_matrix df = []"
    by (simp add: correlation_matrix_def)
next
  assume "2 \<le> length (numeric_columns df)"
  then show "map fst (correlation_matrix df) = map fst (numeric_columns df)"
    by (simp add: correlation_matrix_def Let_def comp_def case_prod_beta)
next
  assume "2 \<le> length (numeric_columns df)"
  then show "\<forall>row\<in>set (correlation_matrix df). map fst (snd row) = map fst (numeric_columns df)"
    by (auto simp: correlation_matrix_def Let_def comp_def case_prod_beta)
next
  fix i j
  assume "2 \<le> length (numeric_columns df)"
    and "i < length (numeric_columns df)" and "j < length (numeric_columns df)"
  then show "entry (correlation_matrix df) i j = entry (correlation_matrix df) j i"
    using complete_pairs_swap [of "snd (numeric_columns df ! i)" "snd (numeric_columns df ! j)"]
    by (simp add: correlation_entry pearson_swap)
next
  fix i
  assume "2 \<le> length (numeric_columns df)" and "i < length (numeric_columns df)"
  then show "entry (correlation_matrix df) i i =
                (if 1 < length (remdups (non_nulls (snd (numeric_columns df ! i))))
                 then Some 1 else None)"
    by (simp add: correlation_entry complete_pairs_self pearson_self)
qed

section \<open>Properties of the command line\<close>

lemma run_all:
  "\<forall>ev. raises env ev = None \<Longrightarrow> \<not> list_ex is_raise steps \<Longrightarrow>
   run env steps done = (None, done @ events_of steps)"
proof (induction steps arbitrary: "done")
  case Nil
  then show ?case by simp
next
  case (Cons s steps)
  then show ?case by (cases s) auto
qed

lemma run_events:
  "set (snd (run env steps done)) \<subseteq> set done \<union> set (events_of steps)"
proof (induction steps arbitrary: "done")
  case Nil
  then show ?case by simp
next
  case (Cons s steps)
  show ?case
  proof (cases s)
    case (Do ev)
    then show ?thesis using Cons [of "done @ [ev]"] by (auto split: option.splits)
  next
    case (Raise msg)
    then show ?thesis by simp
  qed
qed

lemma report_trace:
  assumes "ev \<in> set (snd (report env cfg a))"
  shows "ev = Mkdir (Path (out_dir a))
     \<or> (\<exists>df. load_csv env (Path (path a)) (sep a) (encoding a) = Inr df
              \<and> ev \<in> set (events_of (report_steps cfg a df)))"
proof (cases "raises env (Mkdir (Path (out_dir a)))")
  case (Some msg)
  then show ?thesis using assms by (simp add: report_def)
next
  case None
  show ?thesis
  proof (cases "load_csv env (Path (path a)) (sep a) (encoding a)")
    case (Inl e)
    then show ?thesis using assms None by (simp add: report_def)
  next
    case (Inr df)
    then have "snd (report env cfg a) = snd (run env (report_steps cfg a df) [Mkdir (Path (out_dir a))])"
      using None by (simp add: report_def)
    then show ?thesis using assms run_events [of env "report_steps cfg a df" "[Mkdir (Path (out_dir a))]"] Inr
      by auto
  qed
qed

text \<open>
  Claim C5, as the code has it. When the input path does not exist or \<open>pd.read_csv\<close>
  raises, \<open>_load_csv\<close> raises a parameter error. \<open>overview\<close> then ends with that error
  and has done nothing. \<open>report\<close> creates the output directory before it loads the file:
  when the creation succeeds it ends with the parameter error and the directory is all it
  has made, and when the creation raises it ends with that exception. In no case does an
  analyzer run or is a file written.
\<close>

theorem load_failure_stops_command:
  "(\<not> path_exists env (Path p) \<or> isl (pd_read_csv env (Path p) s enc) \<longrightarrow>
      (\<exists>m. load_csv env (Path p) s enc = Inl (BadParameter m)
          \<and> overview env p s enc = (Some (BadParameter m), [])))
   \<and> (\<not> path_exists env (Path (path a)) \<or>
        isl (pd_read_csv env (Path (path a)) (sep a) (encoding a)) \<longrightarrow>
      (\<exists>m. load_csv env (Path (path a)) (sep a) (encoding a) = Inl (BadParameter m)
          \<and> report env cfg a =
              (case raises env (Mkdir (Path (out_dir a))) of
                 None \<Rightarrow> (Some (BadParameter m), [Mkdir (Path (out_dir a))])
               | Some msg \<Rightarrow> (Some (Raised msg), []))))"
  by (auto simp: load_csv_def overview_def report_def isl_def split: sum.splits option.splits)

theorem load_failure_stops_command_witness:
  "\<not> path_exists missing_env (Path ''data.csv'')
   \<and> overview missing_env ''data.csv'' '','' ''utf-8''
       = (Some (BadParameter (NotFound (Path ''data.csv''))), [])
   \<and> isl (pd_read_csv unreadable_env (Path ''data.csv'') '','' ''utf-8'')
   \<and> overview unreadable_env ''data.csv'' '','' ''utf-8''
       = (Some (BadParameter (CannotRead ''Error tokenizing data'')), [])
   \<and> isl (pd_read_csv unreadable_env (Path (path args0)) (sep args0) (encoding args0))
   \<and> report unreadable_env cfg0 args0
       = (Some (BadParameter (CannotRead ''Error tokenizing data'')), [Mkdir (Path ''reports'')])"
  using load_failure_stops_command [of missing_env "''data.csv''" "'',''" "''utf-8''" args0 cfg0]
    load_failure_stops_command [of unreadable_env "''data.csv''" "'',''" "''utf-8''" args0 cfg0]
  by (simp add: missing_env_def unreadable_env_def args0_def load_csv_def)

text \<open>
  The claim as stated fails for \<open>report\<close>: with an input path that does not exist, the
  command has already created the output directory when the parameter error is raised;
  and where that directory cannot be created, the command ends with the exception of
  \<open>mkdir\<close>, not with a parameter error.
\<close>

theorem report_creates_directory_before_load:
  "\<not> path_exists missing_env (Path (path args0))
   \<and> report missing_env cfg0 args0 =
       (Some (BadParameter (NotFound (Path ''data.csv''))), [Mkdir (Path ''reports'')])
   \<and> snd (report missing_env cfg0 args0) \<noteq> []
   \<and> \<not> path_exists blocked_env (Path (path args0))
   \<and> report blocked_env cfg0 args0 = (Some (Raised ''FileExistsError''), [])"
  by (simp add: report_def load_csv_def missing_env_def blocked_env_def args0_def)

lemma flags_score:
  "\<exists>x. getitem (compute_quality_flags cfg summary missing_df) ''quality_score'' = Inr (JNum x)"
  by (simp add: getitem_def compute_quality_flags_def Let_def)

lemma summary_data_ok:
  "\<exists>x. json_summary_data summary pc (compute_quality_flags cfg s m) =
     Inr (JObj [(''n_rows'', JInt (int (n_rows summary))),
                (''n_cols'', JInt (int (n_cols summary))),
                (''quality_score'', JNum x),
                (''problematic_columns'', JList (map JStr pc)),
                (''flags'', JObj (filter (\<lambda>(k, v). k \<notin> set [''quality_score'', ''max_missing_share''])
                                     (compute_quality_flags cfg s m)))])"
proof -
  obtain x where "getitem (compute_quality_flags cfg s m) ''quality_score'' = Inr (JNum x)"
    using flags_score by blast
  then show ?thesis
    by (simp add: json_summary_data_def round_score_def)
qed

lemma dump_summary_no_raise:
  "\<not> is_raise (dump_summary p (json_summary_data summary pc (compute_quality_flags cfg s m)))"
proof -
  obtain j where "json_summary_data summary pc (compute_quality_flags cfg s m) = Inr j"
    using summary_data_ok by blast
  then show ?thesis by (simp add: dump_summary_def)
qed

lemma report_steps_no_raise: "\<not> list_ex is_raise (report_steps cfg a df)"
  by (simp add: report_steps_def Let_def dump_summary_no_raise)

lemma missing_table_empty: "(missing_table df = []) = (df_len df = 0)"
  by (auto simp: missing_table_def df_len_def)

lemma correlation_matrix_empty: "(correlation_matrix df = []) = (length (numeric_columns df) < 2)"
  by (auto simp: correlation_matrix_def Let_def)

lemma report_loaded:
  assumes "load_csv env (Path (path a)) (sep a) (encoding a) = Inr df"
    and "\<forall>ev. raises env ev = None"
  shows "report env cfg a = (None, Mkdir (Path (out_dir a)) # events_of (report_steps cfg a df))"
  using assms by (simp add: report_def run_all report_steps_no_raise)

lemma report_events:
  "\<exists>x. events_of (report_steps cfg a df) =
     [Compute ''summarize_dataset'', Compute ''flatten_summary_for_print'',
      Compute ''missing_table'', Compute ''correlation_matrix'', Compute ''top_categories'',
      Compute ''compute_quality_flags'', ToCsv (Slash (Path (out_dir a)) ''summary.csv'')]
     @ (if df_len df \<noteq> 0 then [ToCsv (Slash (Path (out_dir a)) ''missing.csv'')] else [])
     @ (if 2 \<le> length (numeric_columns df)
        then [ToCsv (Slash (Path (out_dir a)) ''correlation.csv'')] else [])
     @ [SaveTopCategories (top_categories df None (top_k_categories a))
          (Slash (Path (out_dir a)) ''top_categories''),
        Plot ''plot_categorical_bars'' (Path (out_dir a))]
     @ (if json_summary a then [JsonDump (Slash (Path (out_dir a)) ''summary.json'')
          (JObj [(''n_rows'', JInt (int (n_rows (summarize_dataset df)))),
                 (''n_cols'', JInt (int (n_cols (summarize_dataset df)))),
                 (''quality_score'', JNum x),
                 (''problematic_columns'',
                    JList (map JStr (problematic_columns (summarize_dataset df)
                                       (missing_table df) (min_missing_share a)))),
                 (''flags'',
                    JObj (filter (\<lambda>(k, v). k \<notin> set [''quality_score'', ''max_missing_share''])
                            (compute_quality_flags cfg (summarize_dataset df)
                               (missing_table df))))])] else [])
     @ [WriteText (Slash (Path (out_dir a)) ''report.md''),
        Plot ''plot_histograms_per_column'' (Path (out_dir a)),
        Plot ''plot_missing_matrix'' (Slash (Path (out_dir a)) ''missing_matrix.png''),
        Plot ''plot_correlation_heatmap'' (Slash (Path (out_dir a)) ''correlation_heatmap.png''),
        Echo (ReportDone (Path (out_dir a))),
        Echo (MainMarkdown (Slash (Path (out_dir a)) ''report.md'')),
        Echo TableFiles, Echo PlotFiles]"
proof -
  obtain x where x: "json_summary_data (summarize_dataset df)
      (problematic_columns (summarize_dataset df) (missing_table df) (min_missing_share a))
      (compute_quality_flags cfg (summarize_dataset df) (missing_table df)) =
     Inr (JObj [(''n_rows'', JInt (int (n_rows (summarize_dataset df)))),
                (''n_cols'', JInt (int (n_cols (summarize_dataset df)))),
                (''quality_score'', JNum x),
                (''problematic_columns'',
                   JList (map JStr (problematic_columns (summarize_dataset df)
                                      (missing_table df) (min_missing_share a)))),
                (''flags'',
                   JObj (filter (\<lambda>(k, v). k \<notin> set [''quality_score'', ''max_missing_share''])
                           (compute_quality_flags cfg (summarize_dataset df)
                              (missing_table df))))])"
    using summary_data_ok by blast
  show ?thesis
    apply (rule exI [of _ x])
    unfolding report_steps_def Let_def x dump_summary_def
    by (simp add: missing_table_empty correlation_matrix_empty not_less)
qed

lemma load_one_column:
  "load_csv (loaded_env one_column) (Path (path args0)) (sep args0) (encoding args0)
     = Inr one_column"
  by (simp add: load_csv_def loaded_env_def)

lemma loaded_env_quiet: "\<forall>ev. raises (loaded_env df) ev = None"
  by (simp add: loaded_env_def)

text \<open>
  Claim C3, as the code has it. For a file that loads, when no operation raises,
  \<open>report\<close> ends normally and has written summary.csv and report.md into the output
  directory, has called the writer of the top_categories folder and the four plotting
  functions with their targets there; it has written missing.csv exactly when the frame
  has at least one row (the missing table is not empty), correlation.csv exactly when the
  frame has at least two numeric columns (the correlation matrix is not empty), and
  summary.json exactly when \<open>--json-summary\<close> is given, then with exactly the keys
  n_rows, n_cols, quality_score, problematic_columns and flags.
\<close>

theorem report_artifacts:
  assumes "load_csv env (Path (path a)) (sep a) (encoding a) = Inr df"
    and "\<forall>ev. raises env ev = None"
  shows "fst (report env cfg a) = None
    \<and> ToCsv (Slash (Path (out_dir a)) ''summary.csv'') \<in> set (snd (report env cfg a))
    \<and> (ToCsv (Slash (Path (out_dir a)) ''missing.csv'') \<in> set (snd (report env cfg a)))
         = (df_len df \<noteq> 0)
    \<and> (ToCsv (Slash (Path (out_dir a)) ''correlation.csv'') \<in> set (snd (report env cfg a)))
         = (2 \<le> length (numeric_columns df))
    \<and> SaveTopCategories (top_categories df None (top_k_categories a))
          (Slash (Path (out_dir a)) ''top_categories'')
         \<in> set (snd (report env cfg a))
    \<and> Plot ''plot_categorical_bars'' (Path (out_dir a)) \<in> set (snd (report env cfg a))
    \<and> Plot ''plot_histograms_per_column'' (Path (out_dir a)) \<in> set (snd (report env cfg a))
    \<and> Plot ''plot_missing_matrix'' (Slash (Path (out_dir a)) ''missing_matrix.png'')
         \<in> set (snd (report env cfg a))
    \<and> Plot ''plot_correlation_heatmap'' (Slash (Path (out_dir a)) ''correlation_heatmap.png'')
         \<in> set (snd (report env cfg a))
    \<and> WriteText (Slash (Path (out_dir a)) ''report.md'') \<in> set (snd (report env cfg a))
    \<and> (\<exists>j. JsonDump (Slash (Path (out_dir a)) ''summary.json'') j
              \<in> set (snd (report env cfg a))) = json_summary a
    \<and> (\<forall>p j. JsonDump p j \<in> set (snd (report env cfg a)) \<longrightarrow>
          (\<exists>obj. j = JObj obj \<and>
             map fst obj =
               [''n_rows'', ''n_cols'', ''quality_score'', ''problematic_columns'', ''flags'']))"
proof -
  obtain x where ev: "events_of (report_steps cfg a df) =
     [Compute ''summarize_dataset'', Compute ''flatten_summary_for_print'',
      Compute ''missing_table'', Compute ''correlation_matrix'', Compute ''top_categories'',
      Compute ''compute_quality_flags'', ToCsv (Slash (Path (out_dir a)) ''summary.csv'')]
     @ (if df_len df \<noteq> 0 then [ToCsv (Slash (Path (out_dir a)) ''missing.csv'')] else [])
     @ (if 2 \<le> length (numeric_columns df)
        then [ToCsv (Slash (Path (out_dir a)) ''correlation.csv'')] else [])
     @ [SaveTopCategories (top_categories df None (top_k_categories a))
          (Slash (Path (out_dir a)) ''top_categories''),
        Plot ''plot_categorical_bars'' (Path (out_dir a))]
     @ (if json_summary a then [JsonDump (Slash (Path (out_dir a)) ''summary.json'')
          (JObj [(''n_rows'', JInt (int (n_rows (summarize_dataset df)))),
                 (''n_cols'', JInt (int (n_cols (summarize_dataset df)))),
                 (''quality_score'', JNum x),
                 (''problematic_columns'',
                    JList (map JStr (problematic_columns (summarize_dataset df)
                                       (missing_table df) (min_missing_share a)))),
                 (''flags'',
                    JObj (filter (\<lambda>(k, v). k \<notin> set [''quality_score'', ''max_missing_share''])
                            (compute_quality_flags cfg (summarize_dataset df)
                               (missing_table df))))])] else [])
     @ [WriteText (Slash (Path (out_dir a)) ''report.md''),
        Plot ''plot_histograms_per_column'' (Path (out_dir a)),
        Plot ''plot_missing_matrix'' (Slash (Path (out_dir a)) ''missing_matrix.png''),
        Plot ''plot_correlation_heatmap'' (Slash (Path (out_dir a)) ''correlation_heatmap.png''),
        Echo (ReportDone (Path (out_dir a))),
        Echo (MainMarkdown (Slash (Path (out_dir a)) ''report.md'')),
        Echo TableFiles, Echo PlotFiles]"
    using report_events by blast
  show ?thesis
    unfolding report_loaded [OF assms] fst_conv snd_conv ev
    by auto
qed

theorem report_artifacts_witness:
  "load_csv (loaded_env one_column) (Path (path args0)) (sep args0) (encoding args0)
     = Inr one_column
   \<and> (\<forall>ev. raises (loaded_env one_column) ev = None)
   \<and> fst (report (loaded_env one_column) cfg0 args0) = None
   \<and> ToCsv (Slash (Path ''reports'') ''summary.csv'')
        \<in> set (snd (report (loaded_env one_column) cfg0 args0))
   \<and> ToCsv (Slash (Path ''reports'') ''missing.csv'')
        \<in> set (snd (report (loaded_env one_column) cfg0 args0))
   \<and> WriteText (Slash (Path ''reports'') ''report.md'')
        \<in> set (snd (report (loaded_env one_column) cfg0 args0))
   \<and> (\<exists>j. JsonDump (Slash (Path ''reports'') ''summary.json'') j
        \<in> set (snd (report (loaded_env one_column) cfg0 args0)))"
  using report_artifacts [OF load_one_column loaded_env_quiet, of cfg0]
        load_one_column loaded_env_quiet [of one_column]
  by (simp add: args0_def one_column_def df_len_def)

text \<open>
  The claim as stated fails: for a file with a single numeric column the correlation
  matrix is empty, and \<open>report\<close> ends normally without writing correlation.csv.
\<close>

theorem report_skips_empty_tables:
  "fst (report (loaded_env one_column) cfg0 args0) = None
   \<and> ToCsv (Slash (Path ''reports'') ''correlation.csv'')
        \<notin> set (snd (report (loaded_env one_column) cfg0 args0))"
proof -
  obtain x where "events_of (report_steps cfg0 args0 one_column) =
     [Compute ''summarize_dataset'', Compute ''flatten_summary_for_print'',
      Compute ''missing_table'', Compute ''correlation_matrix'', Compute ''top_categories'',
      Compute ''compute_quality_flags'', ToCsv (Slash (Path (out_dir args0)) ''summary.csv'')]
     @ (if df_len one_column \<noteq> 0 then [ToCsv (Slash (Path (out_dir args0)) ''missing.csv'')] else [])
     @ (if 2 \<le> length (numeric_columns one_column)
        then [ToCsv (Slash (Path (out_dir args0)) ''correlation.csv'')] else [])
     @ [SaveTopCategories (top_categories one_column None (top_k_categories args0))
          (Slash (Path (out_dir args0)) ''top_categories''),
        Plot ''plot_categorical_bars'' (Path (out_dir args0))]
     @ (if json_summary args0 then [JsonDump (Slash (Path (out_dir args0)) ''summary.json'')
          (JObj [(''n_rows'', JInt (int (n_rows (summarize_dataset one_column)))),
                 (''n_cols'', JInt (int (n_cols (summarize_dataset one_column)))),
                 (''quality_score'', JNum x),
                 (''problematic_columns'',
                    JList (map JStr (problematic_columns (summarize_dataset one_column)
                                       (missing_table one_column) (min_missing_share args0)))),
                 (''flags'',
                    JObj (filter (\<lambda>(k, v). k \<notin> set [''quality_score'', ''max_missing_share''])
                            (compute_quality_flags cfg0 (summarize_dataset one_column)
                               (missing_table one_column))))])] else [])
     @ [WriteText (Slash (Path (out_dir args0)) ''report.md''),
        Plot ''plot_histograms_per_column'' (Path (out_dir args0)),
        Plot ''plot_missing_matrix'' (Slash (Path (out_dir args0)) ''missing_matrix.png''),
        Plot ''plot_correlation_heatmap'' (Slash (Path (out_dir args0)) ''correlation_heatmap.png''),
        Echo (ReportDone (Path (out_dir args0))),
        Echo (MainMarkdown (Slash (Path (out_dir args0)) ''report.md'')),
        Echo TableFiles, Echo PlotFiles]"
    using report_events by blast
  moreover have "length (numeric_columns one_column) = 1"
    by (simp add: one_column_def)
  ultimately show ?thesis
    unfolding report_loaded [OF load_one_column loaded_env_quiet]
    by (simp add: args0_def)
qed

lemma flags_lookup:
  "map_of (filter (\<lambda>(k, v). k \<notin> set [''quality_score'', ''max_missing_share'']) d) k =
     (if k = ''quality_score'' \<or> k = ''max_missing_share'' then None else map_of d k)"
  by (induction d) auto

lemma set_problematic_missing_cols:
  "set (problematic_missing_cols missing_df share) =
     {n. \<exists>e. (n, e) \<in> set missing_df \<and> share \<le> missing_share e}"
  unfolding problematic_missing_cols_def by force

lemma set_constant_cols:
  "set (constant_cols summary) =
     {name c | c. c \<in> set (columns summary) \<and> non_null c > 0 \<and> unique c = 1}"
  unfolding constant_cols_def by auto

lemma set_high_card_cols:
  "set (high_card_cols summary) =
     {name c | c. c \<in> set (columns summary) \<and> \<not> is_numeric c \<and> unique c > 50 \<and> non_null c > 0}"
  unfolding high_card_cols_def by auto

lemma set_low_var_cols:
  "set (low_var_cols summary) =
     {name c | c. c \<in> set (columns summary) \<and> is_numeric c
                     \<and> (\<exists>s. std c = Some s \<and> s < 1 / 1000000) \<and> non_null c > 1}"
  unfolding low_var_cols_def by (auto split: option.splits) 

lemma set_problematic_columns:
  "set (problematic_columns summary missing_df share) =
     {n. \<exists>e. (n, e) \<in> set missing_df \<and> share \<le> missing_share e}
     \<union> {name c | c. c \<in> set (columns summary) \<and> non_null c > 0 \<and> unique c = 1}
     \<union> {name c | c. c \<in> set (columns summary) \<and> \<not> is_numeric c \<and> unique c > 50 \<and> non_null c > 0}
     \<union> {name c | c. c \<in> set (columns summary) \<and> is_numeric c
                     \<and> (\<exists>s. std c = Some s \<and> s < 1 / 1000000) \<and> non_null c > 1}"
proof -
  have "set (problematic_columns summary missing_df share) =
      set (problematic_missing_cols missing_df share) \<union> set (constant_cols summary)
      \<union> set (high_card_cols summary) \<union> set (low_var_cols summary)"
    by (simp add: problematic_columns_def Un_assoc)
  then show ?thesis
    by (simp only: set_problematic_missing_cols set_constant_cols set_high_card_cols
          set_low_var_cols)
qed

lemma sorted_problematic_columns:
  "sorted (problematic_columns summary missing_df share)
   \<and> distinct (problematic_columns summary missing_df share)"
  by (simp add: problematic_columns_def)

lemma flags_without_score:
  "map fst (filter (\<lambda>(k, v). k \<notin> set [''quality_score'', ''max_missing_share''])
              (compute_quality_flags cfg summary missing_df)) = flag_names"
  by (simp add: compute_quality_flags_def Let_def flag_names_def)

text \<open>
  Claim C10. Whenever \<open>report\<close> writes a JSON file, it is summary.json in the output
  directory, written for \<open>--json-summary\<close> after the file has loaded. Its
  \<open>problematic_columns\<close> is a list in ascending order without repetition whose members
  are exactly the columns with a missing share of at least \<open>min_missing_share\<close>, the
  constant columns (a non-null value and one distinct value), the non-numeric columns with
  more than 50 distinct values and a non-null value, and the numeric columns with a standard
  deviation below 1e-6 and more than one non-null value. Its \<open>flags\<close> holds every entry of
  the dictionary of quality flags except \<open>quality_score\<close> and \<open>max_missing_share\<close>.
\<close>

theorem summary_json_contents:
  assumes "JsonDump p j \<in> set (snd (report env cfg a))"
  shows "\<exists>df score pc fl.
      load_csv env (Path (path a)) (sep a) (encoding a) = Inr df
    \<and> json_summary a
    \<and> p = Slash (Path (out_dir a)) ''summary.json''
    \<and> j = JObj [(''n_rows'', JInt (int (n_rows (summarize_dataset df)))),
                (''n_cols'', JInt (int (n_cols (summarize_dataset df)))),
                (''quality_score'', score),
                (''problematic_columns'', JList (map JStr pc)),
                (''flags'', JObj fl)]
    \<and> sorted pc \<and> distinct pc
    \<and> set pc =
        {n. \<exists>e. (n, e) \<in> set (missing_table df) \<and> min_missing_share a \<le> missing_share e}
        \<union> {name c | c. c \<in> set (columns (summarize_dataset df)) \<and> non_null c > 0 \<and> unique c = 1}
        \<union> {name c | c. c \<in> set (columns (summarize_dataset df))
                        \<and> \<not> is_numeric c \<and> unique c > 50 \<and> non_null c > 0}
        \<union> {name c | c. c \<in> set (columns (summarize_dataset df)) \<and> is_numeric c
                        \<and> (\<exists>s. std c = Some s \<and> s < 1 / 1000000) \<and> non_null c > 1}
    \<and> (\<forall>k. map_of fl k =
             (if k = ''quality_score'' \<or> k = ''max_missing_share'' then None
              else map_of (compute_quality_flags cfg (summarize_dataset df) (missing_table df)) k))
    \<and> map fst fl = flag_names"
proof -
  obtain df where df: "load_csv env (Path (path a)) (sep a) (encoding a) = Inr df"
    and ev: "JsonDump p j \<in> set (events_of (report_steps cfg a df))"
    using report_trace [OF assms] by auto
  obtain x where x: "events_of (report_steps cfg a df) =
     [Compute ''summarize_dataset'', Compute ''flatten_summary_for_print'',
      Compute ''missing_table'', Compute ''correlation_matrix'', Compute ''top_categories'',
      Compute ''compute_quality_flags'', ToCsv (Slash (Path (out_dir a)) ''summary.csv'')]
     @ (if df_len df \<noteq> 0 then [ToCsv (Slash (Path (out_dir a)) ''missing.csv'')] else [])
     @ (if 2 \<le> length (numeric_columns df)
        then [ToCsv (Slash (Path (out_dir a)) ''correlation.csv'')] else [])
     @ [SaveTopCategories (top_categories df None (top_k_categories a))
          (Slash (Path (out_dir a)) ''top_categories''),
        Plot ''plot_categorical_bars'' (Path (out_dir a))]
     @ (if json_summary a then [JsonDump (Slash (Path (out_dir a)) ''summary.json'')
          (JObj [(''n_rows'', JInt (int (n_rows (summarize_dataset df)))),
                 (''n_cols'', JInt (int (n_cols (summarize_dataset df)))),
                 (''quality_score'', JNum x),
                 (''problematic_columns'',
                    JList (map JStr (problematic_columns (summarize_dataset df)
                                       (missing_table df) (min_missing_share a)))),
                 (''flags'',
                    JObj (filter (\<lambda>(k, v). k \<notin> set [''quality_score'', ''max_missing_share''])
                            (compute_quality_flags cfg (summarize_dataset df)
                               (missing_table df))))])] else [])
     @ [WriteText (Slash (Path (out_dir a)) ''report.md''),
        Plot ''plot_histograms_per_column'' (Path (out_dir a)),
        Plot ''plot_missing_matrix'' (Slash (Path (out_dir a)) ''missing_matrix.png''),
        Plot ''plot_correlation_heatmap'' (Slash (Path (out_dir a)) ''correlation_heatmap.png''),
        Echo (ReportDone (Path (out_dir a))),
        Echo (MainMarkdown (Slash (Path (out_dir a)) ''report.md'')),
        Echo TableFiles, Echo PlotFiles]"
    using report_events by blast
  from ev have js: "json_summary a" and p: "p = Slash (Path (out_dir a)) ''summary.json''"
    and j: "j = JObj [(''n_rows'', JInt (int (n_rows (summarize_dataset df)))),
                 (''n_cols'', JInt (int (n_cols (summarize_dataset df)))),
                 (''quality_score'', JNum x),
                 (''problematic_columns'',
                    JList (map JStr (problematic_columns (summarize_dataset df)
                                       (missing_table df) (min_missing_share a)))),
                 (''flags'',
                    JObj (filter (\<lambda>(k, v). k \<notin> set [''quality_score'', ''max_missing_share''])
                            (compute_quality_flags cfg (summarize_dataset df)
                               (missing_table df))))]"
    unfolding x by (auto split: if_splits)
  show ?thesis
    apply (rule exI [of _ df])
    apply (rule exI [of _ "JNum x"])
    apply (rule exI [of _ "problematic_columns (summarize_dataset df) (missing_table df)
                             (min_missing_share a)"])
    apply (rule exI [of _ "filter (\<lambda>(k, v). k \<notin> set [''quality_score'', ''max_missing_share''])
                            (compute_quality_flags cfg (summarize_dataset df) (missing_table df))"])
    by (intro conjI allI df js p j flags_lookup set_problematic_columns flags_without_score
          sorted_problematic_columns [THEN conjunct1] sorted_problematic_columns [THEN conjunct2])
qed


lemma json_dump_written:
  assumes "json_summary a"
  shows "\<exists>j. JsonDump (Slash (Path (out_dir a)) ''summary.json'') j
               \<in> set (events_of (report_steps cfg a df))"
proof -
  obtain j where j: "json_summary_data (summarize_dataset df)
      (problematic_columns (summarize_dataset df) (missing_table df) (min_missing_share a))
      (compute_quality_flags cfg (summarize_dataset df) (missing_table df)) = Inr j"
    using summary_data_ok by blast
  have "JsonDump (Slash (Path (out_dir a)) ''summary.json'') j
      \<in> set (events_of (report_steps cfg a df))"
    unfolding report_steps_def Let_def j dump_summary_def
    using assms by simp
  then show ?thesis ..
qed

lemma non_nulls_simps:
  "non_nulls [] = []"
  "non_nulls (Some v # xs) = v # non_nulls xs"
  "non_nulls (None # xs) = non_nulls xs"
  "non_nulls (xs @ ys) = non_nulls xs @ non_nulls ys"
  "non_nulls (map Some zs) = zs"
  "non_nulls (replicate n (Some v)) = replicate n v"
  "non_nulls (replicate n None) = []"
proof -
  show "non_nulls (map Some zs) = zs"
    by (induction zs) (simp_all add: non_nulls_def)
  show "non_nulls (replicate n (Some v)) = replicate n v"
    by (induction n) (simp_all add: non_nulls_def)
  show "non_nulls (replicate n None) = []"
    by (induction n) (simp_all add: non_nulls_def)
qed (simp_all add: non_nulls_def)

lemma nulls_simps:
  "nulls [] = 0"
  "nulls (Some v # xs) = nulls xs"
  "nulls (None # xs) = Suc (nulls xs)"
  "nulls (xs @ ys) = nulls xs + nulls ys"
  "nulls (map Some zs) = 0"
  "nulls (replicate n (Some v)) = 0"
  "nulls (replicate n None) = n"
proof -
  show "nulls (map Some zs) = 0"
    by (induction zs) (simp_all add: nulls_def)
qed (simp_all add: nulls_def filter_replicate)

lemma remdups_replicate: "remdups (replicate n x) = (if n = 0 then [] else [x])"
  by (induction n) auto

lemma id_values_distinct: "length id_values = 51 \<and> remdups id_values = id_values"
proof -
  have "distinct id_values"
    unfolding id_values_def
    by (auto simp: distinct_map inj_on_def dest: arg_cong [where f = length])
  then show ?thesis
    by (simp add: id_values_def)
qed

lemma tiny_std: "\<exists>s. std_of (1 / 10000000 # replicate 50 0) = Some s \<and> s < 1 / 1000000"
proof -
  have "std_of (1 / 10000000 # replicate 50 0) =
      Some (sqrt (((1 / 10000000 - 1 / 510000000)\<^sup>2 + 50 * (1 / 510000000)\<^sup>2) / 50))"
    by (simp add: std_of_def Let_def sum_list_replicate)
  moreover have "sqrt (((1 / 10000000 - 1 / 510000000)\<^sup>2 + 50 * (1 / 510000000)\<^sup>2) / 50)
      < (1 / 1000000 :: real)"
    by (rule real_less_lsqrt) (simp_all add: power2_eq_square)
  ultimately show ?thesis by blast
qed

lemma wide_std: "\<exists>s. std_of (1 # replicate 50 0) = Some s \<and> \<not> s < 1 / 1000000"
proof -
  have "std_of (1 # replicate 50 0) =
      Some (sqrt (((1 - 1 / 51)\<^sup>2 + 50 * (1 / 51)\<^sup>2) / 50))"
    by (simp add: std_of_def Let_def sum_list_replicate)
  moreover have "(1 / 1000000 :: real)
      \<le> sqrt (((1 - 1 / 51)\<^sup>2 + 50 * (1 / 51)\<^sup>2) / 50)"
    by (rule real_le_rsqrt) (simp add: power2_eq_square)
  ultimately show ?thesis by (simp add: not_less)
qed

lemma problem_summary:
  "\<exists>m1 s1 m2 s2. s1 < 1 / 1000000 \<and> \<not> s2 < 1 / 1000000 \<and>
     summarize_dataset problem_df =
       \<lparr>n_rows = 51, n_cols = 5,
        columns =
          [\<lparr>name = ''id'', dtype = ''text'', is_numeric = False, non_null = 51, unique = 51,
             mean = None, std = None\<rparr>,
           \<lparr>name = ''const'', dtype = ''text'', is_numeric = False, non_null = 51, unique = 1,
             mean = None, std = None\<rparr>,
           \<lparr>name = ''gap'', dtype = ''text'', is_numeric = False, non_null = 41, unique = 2,
             mean = None, std = None\<rparr>,
           \<lparr>name = ''tiny'', dtype = ''numeric'', is_numeric = True, non_null = 51, unique = 2,
             mean = m1, std = Some s1\<rparr>,
           \<lparr>name = ''wide'', dtype = ''numeric'', is_numeric = True, non_null = 51, unique = 2,
             mean = m2, std = Some s2\<rparr>]\<rparr>"
proof -
  obtain s1 where s1: "std_of (1 / 10000000 # replicate 50 0) = Some s1" "s1 < 1 / 1000000"
    using tiny_std by blast
  obtain s2 where s2: "std_of (1 # replicate 50 0) = Some s2" "\<not> s2 < 1 / 1000000"
    using wide_std by blast
  have "summarize_dataset problem_df =
       \<lparr>n_rows = 51, n_cols = 5,
        columns =
          [\<lparr>name = ''id'', dtype = ''text'', is_numeric = False, non_null = 51, unique = 51,
             mean = None, std = None\<rparr>,
           \<lparr>name = ''const'', dtype = ''text'', is_numeric = False, non_null = 51, unique = 1,
             mean = None, std = None\<rparr>,
           \<lparr>name = ''gap'', dtype = ''text'', is_numeric = False, non_null = 41, unique = 2,
             mean = None, std = None\<rparr>,
           \<lparr>name = ''tiny'', dtype = ''numeric'', is_numeric = True, non_null = 51, unique = 2,
             mean = mean_of (1 / 10000000 # replicate 50 0), std = Some s1\<rparr>,
           \<lparr>name = ''wide'', dtype = ''numeric'', is_numeric = True, non_null = 51, unique = 2,
             mean = mean_of (1 # replicate 50 0), std = Some s2\<rparr>]\<rparr>"
    by (simp add: summarize_dataset_def problem_df_def df_len_def non_nulls_simps
        remdups_replicate id_values_distinct s1 s2)
  then show ?thesis
    using s1(2) s2(2) by blast
qed

lemma problem_missing:
  "missing_table problem_df =
     [(''id'', \<lparr>missing_count = 0, missing_share = 0\<rparr>),
      (''const'', \<lparr>missing_count = 0, missing_share = 0\<rparr>),
      (''gap'', \<lparr>missing_count = 10, missing_share = 10 / 51\<rparr>),
      (''tiny'', \<lparr>missing_count = 0, missing_share = 0\<rparr>),
      (''wide'', \<lparr>missing_count = 0, missing_share = 0\<rparr>)]"
  using id_values_distinct
  by (simp add: missing_table_def problem_df_def df_len_def nulls_simps)

lemma problem_lists:
  "problematic_missing_cols (missing_table problem_df) (1 / 10) = [''gap'']
   \<and> constant_cols (summarize_dataset problem_df) = [''const'']
   \<and> high_card_cols (summarize_dataset problem_df) = [''id'']
   \<and> low_var_cols (summarize_dataset problem_df) = [''tiny'']"
proof -
  obtain m1 s1 m2 s2 where s: "s1 < 1 / 1000000" "\<not> s2 < 1 / 1000000"
    and sm: "summarize_dataset problem_df =
       \<lparr>n_rows = 51, n_cols = 5,
        columns =
          [\<lparr>name = ''id'', dtype = ''text'', is_numeric = False, non_null = 51, unique = 51,
             mean = None, std = None\<rparr>,
           \<lparr>name = ''const'', dtype = ''text'', is_numeric = False, non_null = 51, unique = 1,
             mean = None, std = None\<rparr>,
           \<lparr>name = ''gap'', dtype = ''text'', is_numeric = False, non_null = 41, unique = 2,
             mean = None, std = None\<rparr>,
           \<lparr>name = ''tiny'', dtype = ''numeric'', is_numeric = True, non_null = 51, unique = 2,
             mean = m1, std = Some s1\<rparr>,
           \<lparr>name = ''wide'', dtype = ''numeric'', is_numeric = True, non_null = 51, unique = 2,
             mean = m2, std = Some s2\<rparr>]\<rparr>"
    using problem_summary by blast
  show ?thesis
    unfolding sm problem_missing
    using s by (simp add: problematic_missing_cols_def constant_cols_def high_card_cols_def
        low_var_cols_def)
qed

lemma sorted_names: "sorted [''const'', ''gap'', ''id'', ''tiny''] \<and> distinct [''const'', ''gap'', ''id'', ''tiny'']"
  by simp

lemma load_problem_df:
  "load_csv (loaded_env problem_df) (Path (path args0)) (sep args0) (encoding args0)
     = Inr problem_df"
  by (simp add: load_csv_def loaded_env_def)

theorem summary_json_contents_witness:
  "(\<exists>j. JsonDump (Slash (Path ''reports'') ''summary.json'') j
          \<in> set (snd (report (loaded_env problem_df) cfg0 args0))
      \<and> (\<exists>score fl.
            j = JObj [(''n_rows'', JInt 51), (''n_cols'', JInt 5), (''quality_score'', score),
                      (''problematic_columns'',
                         JList [JStr ''const'', JStr ''gap'', JStr ''id'', JStr ''tiny'']),
                      (''flags'', JObj fl)]
            \<and> map fst fl = flag_names))
   \<and> {n. \<exists>e. (n, e) \<in> set (missing_table problem_df)
              \<and> min_missing_share args0 \<le> missing_share e} = {''gap''}
   \<and> {name c | c. c \<in> set (columns (summarize_dataset problem_df))
                  \<and> non_null c > 0 \<and> unique c = 1} = {''const''}
   \<and> {name c | c. c \<in> set (columns (summarize_dataset problem_df))
                  \<and> \<not> is_numeric c \<and> unique c > 50 \<and> non_null c > 0} = {''id''}
   \<and> {name c | c. c \<in> set (columns (summarize_dataset problem_df)) \<and> is_numeric c
                  \<and> (\<exists>s. std c = Some s \<and> s < 1 / 1000000) \<and> non_null c > 1} = {''tiny''}"
proof -
  have share: "min_missing_share args0 = 1 / 10"
    by (simp add: args0_def)
  have s1: "{n. \<exists>e. (n, e) \<in> set (missing_table problem_df)
              \<and> min_missing_share args0 \<le> missing_share e} = {''gap''}"
    unfolding set_problematic_missing_cols [symmetric] share
    by (simp add: problem_lists)
  have s2: "{name c | c. c \<in> set (columns (summarize_dataset problem_df))
                  \<and> non_null c > 0 \<and> unique c = 1} = {''const''}"
    unfolding set_constant_cols [symmetric] by (simp add: problem_lists)
  have s3: "{name c | c. c \<in> set (columns (summarize_dataset problem_df))
                  \<and> \<not> is_numeric c \<and> unique c > 50 \<and> non_null c > 0} = {''id''}"
    unfolding set_high_card_cols [symmetric] by (simp add: problem_lists)
  have s4: "{name c | c. c \<in> set (columns (summarize_dataset problem_df)) \<and> is_numeric c
                  \<and> (\<exists>s. std c = Some s \<and> s < 1 / 1000000) \<and> non_null c > 1} = {''tiny''}"
    unfolding set_low_var_cols [symmetric] by (simp add: problem_lists)
  have js: "json_summary args0"
    by (simp add: args0_def)
  have out: "out_dir args0 = ''reports''"
    by (simp add: args0_def)
  obtain j where "JsonDump (Slash (Path (out_dir args0)) ''summary.json'') j
      \<in> set (events_of (report_steps cfg0 args0 problem_df))"
    using json_dump_written [OF js] by blast
  then have mem: "JsonDump (Slash (Path ''reports'') ''summary.json'') j
      \<in> set (snd (report (loaded_env problem_df) cfg0 args0))"
    unfolding report_loaded [OF load_problem_df loaded_env_quiet] out by simp
  note inst = summary_json_contents [OF mem]
  from inst obtain df score pc fl where
    df: "load_csv (loaded_env problem_df) (Path (path args0)) (sep args0) (encoding args0) = Inr df"
    and j: "j = JObj [(''n_rows'', JInt (int (n_rows (summarize_dataset df)))),
                (''n_cols'', JInt (int (n_cols (summarize_dataset df)))),
                (''quality_score'', score),
                (''problematic_columns'', JList (map JStr pc)),
                (''flags'', JObj fl)]"
    and pc1: "sorted pc" and pc2: "distinct pc"
    and pc3: "set pc =
        {n. \<exists>e. (n, e) \<in> set (missing_table df) \<and> min_missing_share args0 \<le> missing_share e}
        \<union> {name c | c. c \<in> set (columns (summarize_dataset df)) \<and> non_null c > 0 \<and> unique c = 1}
        \<union> {name c | c. c \<in> set (columns (summarize_dataset df))
                        \<and> \<not> is_numeric c \<and> unique c > 50 \<and> non_null c > 0}
        \<union> {name c | c. c \<in> set (columns (summarize_dataset df)) \<and> is_numeric c
                        \<and> (\<exists>s. std c = Some s \<and> s < 1 / 1000000) \<and> non_null c > 1}"
    and fl: "map fst fl = flag_names"
    by (elim exE conjE) (rule that; assumption)
  from df have d: "df = problem_df"
    unfolding load_problem_df by simp
  have "set pc = set [''const'', ''gap'', ''id'', ''tiny'']"
    unfolding pc3 d s1 s2 s3 s4 by auto
  then have pc: "pc = [''const'', ''gap'', ''id'', ''tiny'']"
    using pc1 pc2 sorted_names by (intro sorted_distinct_set_unique) auto
  obtain m1 s1' m2 s2' where "summarize_dataset problem_df =
       \<lparr>n_rows = 51, n_cols = 5,
        columns =
          [\<lparr>name = ''id'', dtype = ''text'', is_numeric = False, non_null = 51, unique = 51,
             mean = None, std = None\<rparr>,
           \<lparr>name = ''const'', dtype = ''text'', is_numeric = False, non_null = 51, unique = 1,
             mean = None, std = None\<rparr>,
           \<lparr>name = ''gap'', dtype = ''text'', is_numeric = False, non_null = 41, unique = 2,
             mean = None, std = None\<rparr>,
           \<lparr>name = ''tiny'', dtype = ''numeric'', is_numeric = True, non_null = 51, unique = 2,
             mean = m1, std = Some s1'\<rparr>,
           \<lparr>name = ''wide'', dtype = ''numeric'', is_numeric = True, non_null = 51, unique = 2,
             mean = m2, std = Some s2'\<rparr>]\<rparr>"
    using problem_summary by blast
  then have size: "n_rows (summarize_dataset problem_df) = 51"
      "n_cols (summarize_dataset problem_df) = 5"
    by simp_all
  have jj: "j = JObj [(''n_rows'', JInt 51), (''n_cols'', JInt 5), (''quality_score'', score),
                      (''problematic_columns'',
                         JList [JStr ''const'', JStr ''gap'', JStr ''id'', JStr ''tiny'']),
                      (''flags'', JObj fl)]"
    using j unfolding d pc size by simp
  have ex: "\<exists>j. JsonDump (Slash (Path ''reports'') ''summary.json'') j
          \<in> set (snd (report (loaded_env problem_df) cfg0 args0))
      \<and> (\<exists>score fl.
            j = JObj [(''n_rows'', JInt 51), (''n_cols'', JInt 5), (''quality_score'', score),
                      (''problematic_columns'',
                         JList [JStr ''const'', JStr ''gap'', JStr ''id'', JStr ''tiny'']),
                      (''flags'', JObj fl)]
            \<and> map fst fl = flag_names)"
    apply (rule exI [of _ j])
    apply (rule conjI [OF mem])
    apply (rule exI [of _ score])
    apply (rule exI [of _ fl])
    by (intro conjI jj fl)
  show ?thesis
    by (intro conjI ex s1 s2 s3 s4)
qed

end
